theory Spec2Isabelle
  imports Complex_Main
begin

section \<open>JavaScript values used by the pipeline\<close>

text \<open>
  An environment variable or an optional argument is a \<open>string option\<close>: \<open>None\<close> is
  \<open>undefined\<close>. JavaScript treats \<open>undefined\<close> and the empty string as falsy, every
  other string as truthy.
\<close>

definition truthy :: "string option \<Rightarrow> bool" where
  "truthy v = (case v of None \<Rightarrow> False | Some s \<Rightarrow> s \<noteq> [])"

text \<open>\<open>a || d\<close> where \<open>d\<close> is a string literal.\<close>

definition or_else :: "string option \<Rightarrow> string \<Rightarrow> string" where
  "or_else v d = (case v of None \<Rightarrow> d | Some s \<Rightarrow> if s = [] then d else s)"

text \<open>\<open>s.startsWith(p)\<close> and \<open>s.includes(p)\<close>.\<close>

fun starts_with :: "string \<Rightarrow> string \<Rightarrow> bool" where
  "starts_with s [] = True"
| "starts_with [] (p # ps) = False"
| "starts_with (c # cs) (p # ps) = (c = p \<and> starts_with cs ps)"

fun str_includes :: "string \<Rightarrow> string \<Rightarrow> bool" where
  "str_includes [] p = (p = [])"
| "str_includes (c # cs) p = (starts_with (c # cs) p \<or> str_includes cs p)"

text \<open>Errors thrown by the code: \<open>new Error(msg)\<close>, and the runtime's \<open>TypeError\<close>.\<close>

datatype js_error = Error string | TypeError string

section \<open>Configuration (\<open>env.server\<close>)\<close>

text \<open>
  The variables of \<open>env\<close> the pipeline reads. \<open>MODEL_TEMPERATURE\<close> holds the value of
  \<open>Number(env.MODEL_TEMPERATURE)\<close>, \<open>None\<close> when that is \<open>NaN\<close>.
\<close>

record env =
  MODEL :: "string option"
  MODEL_TEMPERATURE :: "rat option"
  ANTHROPIC_API_KEY :: "string option"
  GOOGLE_GENERATIVE_AI_API_KEY :: "string option"
  OPENAI_API_KEY :: "string option"
  OPENAI_BASE_URL :: "string option"
  OLLAMA_URL :: "string option"
  OPENAI_EMBEDDINGS_BASE_URL :: "string option"
  EMBEDDING_MODEL :: "string option"
  API_BASE_URL :: "string option"
  APP_ORIGIN :: "string option"

section \<open>Model selection (\<open>model.server.ts\<close>)\<close>

datatype ModelComplexity = High | Low

definition default_model :: string where
  "default_model = ''gpt-4.1-2025-04-14''"

text \<open>The static downgrade table of \<open>getModelForTask\<close>, in the order of the source.\<close>

definition downgrades :: "(string \<times> string) list" where
  "downgrades =
    [(''gpt-5-2025-08-07'', ''gpt-5-mini-2025-08-07''),
     (''gpt-4.1-2025-04-14'', ''gpt-4.1-mini-2025-04-14''),
     (''claude-sonnet-4-5'', ''claude-3-5-haiku-20241022''),
     (''claude-3-7-sonnet-20250219'', ''claude-3-5-haiku-20241022''),
     (''claude-3-opus-20240229'', ''claude-3-5-haiku-20241022''),
     (''gemini-2.5-pro-preview-03-25'', ''gemini-2.5-flash-preview-04-17''),
     (''gemini-2.0-flash'', ''gemini-2.0-flash-lite''),
     (''us.amazon.nova-premier-v1:0'', ''us.amazon.nova-premier-v1:0'')]"

text \<open>\<open>const baseModel = env.MODEL || "gpt-4.1-2025-04-14"\<close>\<close>

definition baseModel :: "env \<Rightarrow> string" where
  "baseModel e = or_else (MODEL e) default_model"

text \<open>
  \<open>downgrades\<close> is an object literal, so \<open>downgrades[baseModel]\<close> finds the entry of
  that name and, when there is none, the member of that name which every object inherits
  from \<open>Object.prototype\<close> (a function, or for \<open>__proto__\<close> the prototype itself);
  \<open>None\<close> is \<open>undefined\<close>.
\<close>

datatype js_value = Str string | PrototypeMember string

definition object_prototype_members :: "string list" where
  "object_prototype_members =
    [''constructor'', ''__defineGetter__'', ''__defineSetter__'', ''hasOwnProperty'',
     ''__lookupGetter__'', ''__lookupSetter__'', ''isPrototypeOf'', ''propertyIsEnumerable'',
     ''toString'', ''valueOf'', ''__proto__'', ''toLocaleString'']"

definition downgrades_lookup :: "string \<Rightarrow> js_value option" where
  "downgrades_lookup name =
    (case map_of downgrades name of
       Some cheap \<Rightarrow> Some (Str cheap)
     | None \<Rightarrow>
         if name \<in> set object_prototype_members then Some (PrototypeMember name) else None)"

text \<open>
  \<open>getModelForTask\<close>: the configured model for \<open>high\<close>; for \<open>low\<close>,
  \<open>downgrades[baseModel] || baseModel\<close>, where \<open>undefined\<close> and the empty string are
  falsy and an inherited member is truthy.
\<close>

definition getModelForTask :: "env \<Rightarrow> ModelComplexity \<Rightarrow> js_value" where
  "getModelForTask e complexity =
    (case complexity of
       High \<Rightarrow> Str (baseModel e)
     | Low \<Rightarrow>
         (case downgrades_lookup (baseModel e) of
            None \<Rightarrow> Str (baseModel e)
          | Some (Str cheap) \<Rightarrow> if cheap = [] then Str (baseModel e) else Str cheap
          | Some (PrototypeMember name) \<Rightarrow> PrototypeMember name))"

section \<open>Provider routing (\<open>getModel\<close>)\<close>

text \<open>
  The handle a provider factory returns: \<open>ollama(model)\<close> on a client created with a
  base URL, \<open>anthropic(model)\<close>, \<open>google(model)\<close>, \<open>openai.chat(model, {baseURL})\<close>,
  \<open>openai(model)\<close>.
\<close>

datatype model_instance =
    Ollama string string
  | Anthropic string
  | Google string
  | OpenAIChat string string
  | OpenAI string

text \<open>
  The local variables of \<open>getModel\<close> when it leaves, and the value it returns
  (\<open>None\<close> is \<open>undefined\<close>: the only \<open>return\<close> statement is inside the \<open>else\<close>
  block, so the Ollama branch falls off the end of the function).
\<close>

record getModel_frame =
  modelInstance :: "model_instance option"
  modelTemperature :: rat
  returned :: "model_instance option"

text \<open>\<open>Number(env.MODEL_TEMPERATURE) || 1\<close>: \<open>NaN\<close> and \<open>0\<close> are falsy.\<close>

definition global_temperature :: "env \<Rightarrow> rat" where
  "global_temperature e =
    (case MODEL_TEMPERATURE e of None \<Rightarrow> 1 | Some t \<Rightarrow> if t = 0 then 1 else t)"

definition no_anthropic_key :: js_error where
  "no_anthropic_key = Error ''No Anthropic API key found. Set ANTHROPIC_API_KEY''"

definition no_google_key :: js_error where
  "no_google_key = Error ''No Google API key found. Set GOOGLE_API_KEY''"

definition no_openai_key :: js_error where
  "no_openai_key = Error ''No OpenAI API key found. Set OPENAI_API_KEY''"

text \<open>
  The body of \<open>getModel\<close>, statement by statement. \<open>ollamaUrl\<close> is read from the
  environment and then overwritten with \<open>undefined\<close> before it is tested.
\<close>

definition getModel_run :: "env \<Rightarrow> string option \<Rightarrow> js_error + getModel_frame" where
  "getModel_run e takeModel =
    (let anthropicKey = ANTHROPIC_API_KEY e;
         googleKey = GOOGLE_GENERATIVE_AI_API_KEY e;
         openaiKey = OPENAI_API_KEY e;
         openaiBaseUrl = OPENAI_BASE_URL e;
         ollamaUrl0 = OLLAMA_URL e;
         model = or_else takeModel (or_else (MODEL e) default_model);
         modelTemperature0 = global_temperature e;
         ollamaUrl = (None :: string option)
     in
       if truthy ollamaUrl then
         Inr \<lparr>modelInstance = Some (Ollama (or_else ollamaUrl []) (or_else (Some model) ''llama2'')),
              modelTemperature = modelTemperature0,
              returned = None\<rparr>
       else if model \<noteq> [] \<and> str_includes model ''claude'' then
         (if \<not> truthy anthropicKey then Inl no_anthropic_key
          else Inr \<lparr>modelInstance = Some (Anthropic model),
                    modelTemperature = 1 / 2,
                    returned = Some (Anthropic model)\<rparr>)
       else if model \<noteq> [] \<and> str_includes model ''gemini'' then
         (if \<not> truthy googleKey then Inl no_google_key
          else Inr \<lparr>modelInstance = Some (Google model),
                    modelTemperature = modelTemperature0,
                    returned = Some (Google model)\<rparr>)
       else
         (if \<not> truthy openaiKey then Inl no_openai_key
          else if truthy openaiBaseUrl then
            Inr \<lparr>modelInstance = Some (OpenAIChat model (or_else openaiBaseUrl [])),
                 modelTemperature = modelTemperature0,
                 returned = Some (OpenAIChat model (or_else openaiBaseUrl []))\<rparr>
          else
            Inr \<lparr>modelInstance = Some (OpenAI model),
                 modelTemperature = modelTemperature0,
                 returned = Some (OpenAI model)\<rparr>))"

text \<open>What the caller of \<open>getModel\<close> receives: the returned handle, or the error thrown.\<close>

definition getModel :: "env \<Rightarrow> string option \<Rightarrow> js_error + model_instance option" where
  "getModel e takeModel =
    (case getModel_run e takeModel of Inl err \<Rightarrow> Inl err | Inr fr \<Rightarrow> Inr (returned fr))"

section \<open>Embeddings (\<open>requestEmbeddingWithRetries\<close>, \<open>getEmbedding\<close>)\<close>

type_synonym embedding = "rat list"

text \<open>
  What one \<open>fetch\<close> of the embeddings endpoint can do: reject; answer with a status that
  is not 2xx (\<open>response.status\<close> in decimal, and the body text); answer with a body that
  cannot be read (\<open>response.text()\<close> or \<open>response.json()\<close> throws); or answer with JSON,
  of which the code reads \<open>data?.data?.[0]?.embedding\<close> (\<open>None\<close> when that is missing
  or falsy).
\<close>

datatype fetch_outcome =
    FetchRejected js_error
  | NotOk string string
  | BodyFailed js_error
  | OkJson "embedding option"

datatype model_field = NoModelField | NullModel | ModelName string

record http_request =
  endpoint :: string
  authorization :: "string option"
  input :: string
  payload_model :: model_field

datatype log_entry =
    RequestFailed string int js_error
  | CustomEndpointFailed js_error
  | SdkFailed js_error
  | OllamaFailed js_error

text \<open>
  What the embedding code does to the outside, in order: a POST (with its attempt number),
  a \<open>console.error\<close>, a \<open>setTimeout\<close> wait in milliseconds, a call of the SDK's
  \<open>embed\<close> on the OpenAI model, a call of \<open>embed\<close> on the Ollama client.
\<close>

datatype event =
    Fetch int http_request
  | ConsoleError log_entry
  | Sleep int
  | SdkEmbed string
  | OllamaEmbed string "string option"

record EmbeddingRequestOptions =
  opt_baseUrl :: string
  opt_text :: string
  opt_apiKey :: "string option"
  opt_model :: "string option"
  opt_sendNullModelWhenMissing :: "bool option"
  opt_maxRetries :: "int option"

text \<open>\<open>baseUrl.replace(/\/$/, "")\<close>: one trailing slash is dropped.\<close>

definition strip_trailing_slash :: "string \<Rightarrow> string" where
  "strip_trailing_slash s = (if s \<noteq> [] \<and> last s = CHR ''/'' then butlast s else s)"

definition build_request :: "EmbeddingRequestOptions \<Rightarrow> http_request" where
  "build_request opts =
    \<lparr>endpoint = strip_trailing_slash (opt_baseUrl opts) @ ''/embeddings'',
     authorization =
       (if truthy (opt_apiKey opts) then Some (''Bearer '' @ or_else (opt_apiKey opts) []) else None),
     input = opt_text opts,
     payload_model =
       (if truthy (opt_model opts) then ModelName (or_else (opt_model opts) [])
        else if (case opt_sendNullModelWhenMissing opts of None \<Rightarrow> False | Some b \<Rightarrow> b)
        then NullModel else NoModelField)\<rparr>"

text \<open>The body of the \<open>try\<close> block: the embedding, or the error it throws.\<close>

definition attempt_result :: "fetch_outcome \<Rightarrow> js_error + embedding" where
  "attempt_result r =
    (case r of
       FetchRejected err \<Rightarrow> Inl err
     | NotOk status errorText \<Rightarrow> Inl (Error (''Status '' @ status @ '': '' @ errorText))
     | BodyFailed err \<Rightarrow> Inl err
     | OkJson None \<Rightarrow> Inl (Error ''Unexpected embedding response format'')
     | OkJson (Some emb) \<Rightarrow> Inr emb)"

text \<open>
  The loop \<open>for (let attempt = 1; attempt <= maxRetries; attempt += 1)\<close>, entered at
  \<open>attempt\<close>. \<open>fetch n\<close> is what the network does on attempt \<open>n\<close>.
\<close>

function retry_loop ::
  "(int \<Rightarrow> fetch_outcome) \<Rightarrow> http_request \<Rightarrow> string \<Rightarrow> int \<Rightarrow> int
     \<Rightarrow> (js_error + embedding) \<times> event list" where
  "retry_loop fetch req base maxRetries attempt =
    (if attempt \<le> maxRetries then
       (case attempt_result (fetch attempt) of
          Inr emb \<Rightarrow> (Inr emb, [Fetch attempt req])
        | Inl err \<Rightarrow>
            if attempt = maxRetries then
              (Inl err, [Fetch attempt req, ConsoleError (RequestFailed base attempt err)])
            else
              (case retry_loop fetch req base maxRetries (attempt + 1) of
                 (r, evs) \<Rightarrow>
                   (r, [Fetch attempt req, ConsoleError (RequestFailed base attempt err),
                        Sleep (2 ^ nat attempt * 1000)] @ evs)))
     else (Inl (Error ''Embedding request failed after retries''), []))"
  by pat_completeness auto
termination
  by (relation "measure (\<lambda>(fetch, req, base, maxRetries, attempt). nat (maxRetries + 1 - attempt))")
     auto

definition requestEmbeddingWithRetries ::
  "(int \<Rightarrow> fetch_outcome) \<Rightarrow> EmbeddingRequestOptions \<Rightarrow> (js_error + embedding) \<times> event list" where
  "requestEmbeddingWithRetries fetch opts =
    retry_loop fetch (build_request opts) (opt_baseUrl opts)
      (case opt_maxRetries opts of None \<Rightarrow> 3 | Some n \<Rightarrow> n) 1"

text \<open>
  The outside of \<open>getEmbedding\<close>: the embeddings endpoint, the SDK's \<open>embed\<close> on the
  OpenAI provider and on the Ollama provider (each returns the vector or throws).
\<close>

record embed_world =
  ew_fetch :: "int \<Rightarrow> fetch_outcome"
  ew_sdk_embed :: "js_error + embedding"
  ew_ollama_embed :: "js_error + embedding"

definition all_failed :: js_error where
  "all_failed = Error ''All embedding methods failed. Please check your configuration.''"

text \<open>The three blocks of \<open>getEmbedding\<close>, last first; each falls through to the next.\<close>

definition try_ollama :: "env \<Rightarrow> embed_world \<Rightarrow> (js_error + embedding) \<times> event list" where
  "try_ollama e w =
    (if truthy (OLLAMA_URL e) then
       (case ew_ollama_embed w of
          Inr emb \<Rightarrow> (Inr emb, [OllamaEmbed (or_else (OLLAMA_URL e) []) (EMBEDDING_MODEL e)])
        | Inl err \<Rightarrow>
            (Inl all_failed,
             [OllamaEmbed (or_else (OLLAMA_URL e) []) (EMBEDDING_MODEL e),
              ConsoleError (OllamaFailed err)]))
     else (Inl all_failed, []))"

definition try_sdk :: "env \<Rightarrow> embed_world \<Rightarrow> (js_error + embedding) \<times> event list" where
  "try_sdk e w =
    (if EMBEDDING_MODEL e = Some ''text-embedding-3-small'' then
       (case ew_sdk_embed w of
          Inr emb \<Rightarrow> (Inr emb, [SdkEmbed ''text-embedding-3-small''])
        | Inl err \<Rightarrow>
            (case try_ollama e w of
               (r, evs) \<Rightarrow>
                 (r, [SdkEmbed ''text-embedding-3-small'', ConsoleError (SdkFailed err)] @ evs)))
     else try_ollama e w)"

definition getEmbedding ::
  "env \<Rightarrow> embed_world \<Rightarrow> string \<Rightarrow> (js_error + embedding) \<times> event list" where
  "getEmbedding e w txt =
    (if truthy (OPENAI_EMBEDDINGS_BASE_URL e) then
       (case requestEmbeddingWithRetries (ew_fetch w)
               \<lparr>opt_baseUrl = or_else (OPENAI_EMBEDDINGS_BASE_URL e) [],
                opt_text = txt,
                opt_apiKey = OPENAI_API_KEY e,
                opt_model = EMBEDDING_MODEL e,
                opt_sendNullModelWhenMissing = Some True,
                opt_maxRetries = None\<rparr> of
          (Inr emb, evs) \<Rightarrow> (Inr emb, evs)
        | (Inl err, evs) \<Rightarrow>
            (case try_sdk e w of
               (r, evs') \<Rightarrow> (r, evs @ [ConsoleError (CustomEndpointFailed err)] @ evs')))
     else try_sdk e w)"

section \<open>The conversation route (\<open>api.v1.conversation._index.tsx\<close>)\<close>

subsection \<open>\<open>stripHtml\<close>\<close>

text \<open>
  \<open>.replace(/<[^>]*>/g, '')\<close>: scanning from the left, a \<open><\<close> that has a \<open>>\<close>
  somewhere after it is removed together with everything up to the first such \<open>>\<close>;
  a \<open><\<close> with no \<open>>\<close> after it stays.
\<close>

function remove_tags :: "string \<Rightarrow> string" where
  "remove_tags [] = []"
| "remove_tags (c # cs) =
    (if c = CHR ''<'' \<and> CHR ''>'' \<in> set cs
     then remove_tags (tl (dropWhile (\<lambda>x. x \<noteq> CHR ''>'') cs))
     else c # remove_tags cs)"
  by pat_completeness auto
termination
proof (relation "measure length")
  fix c :: char and cs :: string
  have "length (tl (dropWhile (\<lambda>x. x \<noteq> CHR ''>'') cs)) \<le> length cs"
    using length_dropWhile_le [of "\<lambda>x. x \<noteq> CHR ''>''" cs] by simp
  then show "(tl (dropWhile (\<lambda>x. x \<noteq> CHR ''>'') cs), c # cs) \<in> measure length"
    by simp
qed simp_all

text \<open>\<open>.replace(/pat/g, rep)\<close> for a literal pattern: leftmost matches, not overlapping.\<close>

function replace_all :: "string \<Rightarrow> string \<Rightarrow> string \<Rightarrow> string" where
  "replace_all pat rep [] = []"
| "replace_all pat rep (c # cs) =
    (if pat \<noteq> [] \<and> starts_with (c # cs) pat
     then rep @ replace_all pat rep (drop (length pat) (c # cs))
     else c # replace_all pat rep cs)"
  by pat_completeness auto
termination
  by (relation "measure (\<lambda>(pat, rep, s). length s)") (auto simp: Suc_le_eq)

text \<open>
  \<open>.trim()\<close>. A string is a list of code units below 256; the white space of JavaScript
  in that range is tab, line feed, vertical tab, form feed, carriage return, space and
  the no-break space.
\<close>

definition is_js_space :: "char \<Rightarrow> bool" where
  "is_js_space c =
    (c \<in> set [CHR 0x09, CHR 0x0A, CHR 0x0B, CHR 0x0C, CHR 0x0D, CHR 0x20, CHR 0xA0])"

definition trim :: "string \<Rightarrow> string" where
  "trim s = rev (dropWhile is_js_space (rev (dropWhile is_js_space s)))"

definition stripHtml :: "string \<Rightarrow> string" where
  "stripHtml html =
    trim
      (replace_all ''&#039;'' [CHR 0x27]
        (replace_all ''&quot;'' [CHR 0x22]
          (replace_all ''&amp;'' ''&''
            (replace_all ''&gt;'' ''>''
              (replace_all ''&lt;'' ''<''
                (replace_all ''&nbsp;'' '' ''
                  (remove_tags html)))))))"

subsection \<open>Data of one turn\<close>

datatype UserTypeEnum = Agent | User | System

record ui_part =
  p_type :: string
  p_text :: string

record ui_message =
  m_id :: string
  m_role :: string
  m_parts :: "ui_part list"

text \<open>
  The request body (\<open>ChatRequestSchema\<close>): the message with its optional id, and the
  conversation id. The parts are those of a \<open>UIMessage\<close>; each has a type and a text.
\<close>

record chat_request =
  req_message_id :: "string option"
  req_parts :: "ui_part list"
  req_role :: string
  req_id :: string

text \<open>A row of \<open>ConversationHistory\<close> as the route reads it.\<close>

record history_row =
  h_id :: string
  h_message :: string
  h_userType :: UserTypeEnum

text \<open>A persisted turn, a title job, a line of the logger.\<close>

record turn =
  t_id :: nat
  t_conversationId :: string
  t_text :: string
  t_role :: UserTypeEnum

record title_job =
  j_conversationId :: string
  j_message :: string

datatype log_line =
    LoggerError string "js_error option"
  | LoggerWarn string "js_error option"

text \<open>What the route has done to the outside: the turns appended, the jobs enqueued, the log.\<close>

record sys =
  store :: "turn list"
  queue :: "title_job list"
  logs :: "log_line list"

text \<open>
  How the collaborators answer during one request: \<open>None\<close> of a \<open>js_error option\<close> is a
  call that resolves. \<open>w_getPAT\<close> is \<open>pat.token\<close>; \<open>w_url_valid\<close> says whether
  \<open>new URL\<close> accepts the string; \<open>w_tools\<close> is the answer of \<open>mcpClient.tools()\<close> (the tool
  names); \<open>w_getConversation\<close> is \<open>conversation?.ConversationHistory\<close>.
\<close>

record world =
  w_deletePAT :: "js_error option"
  w_getPAT :: "js_error + string option"
  w_url_valid :: "string \<Rightarrow> bool"
  w_createMCPClient :: "js_error option"
  w_tools :: "js_error + string list"
  w_getConversation :: "js_error + history_row list option"
  w_saveUser :: "js_error option"
  w_enqueue :: "js_error option"
  w_generateId :: string
  w_validate :: "js_error option"
  w_saveAgent :: "js_error option"

text \<open>The arguments of \<open>streamText\<close>, from which the response is made.\<close>

record stream_call =
  sc_model :: "model_instance option"
  sc_messages :: "ui_message list"
  sc_tools :: "string list"
  sc_stepLimit :: nat

subsection \<open>Sequencing of awaited calls\<close>

type_synonym 'a step = "(js_error + 'a) \<times> sys"

text \<open>An exception ends the request; what was done before it stays done.\<close>

definition and_then :: "'a step \<Rightarrow> ('a \<Rightarrow> sys \<Rightarrow> 'b step) \<Rightarrow> 'b step" where
  "and_then m f = (case m of (Inl err, s) \<Rightarrow> (Inl err, s) | (Inr a, s) \<Rightarrow> f a s)"

definition await_unit :: "js_error option \<Rightarrow> sys \<Rightarrow> unit step" where
  "await_unit r s = (case r of Some err \<Rightarrow> (Inl err, s) | None \<Rightarrow> (Inr (), s))"

definition await_value :: "js_error + 'a \<Rightarrow> sys \<Rightarrow> 'a step" where
  "await_value r s = (r, s)"

definition add_log :: "log_line \<Rightarrow> sys \<Rightarrow> sys" where
  "add_log l s = s\<lparr>logs := logs s @ [l]\<rparr>"

subsection \<open>Collaborators outside the route\<close>

text \<open>
  Modelled from the spec: \<open>createConversationHistory\<close> of \<open>conversation.server\<close> is not part
  of the sources at hand. The spec gives the store one write, \<open>appendTurn(conversationId,
  turn) -> Turn\<close>, on an append-only history of which the store is the sole owner: the turn
  is appended with a fresh id and returned. The first argument says whether the database
  call fails.
\<close>

definition createConversationHistory ::
  "js_error option \<Rightarrow> string \<Rightarrow> string \<Rightarrow> UserTypeEnum \<Rightarrow> sys \<Rightarrow> turn step" where
  "createConversationHistory fails message conversationId userType s =
    (case fails of
       Some err \<Rightarrow> (Inl err, s)
     | None \<Rightarrow>
         (let row = \<lparr>t_id = length (store s), t_conversationId = conversationId,
                     t_text = message, t_role = userType\<rparr>
          in (Inr row, s\<lparr>store := store s @ [row]\<rparr>)))"

text \<open>
  Modelled from the spec: \<open>enqueueCreateConversationTitle\<close> of \<open>queue-adapter.server\<close> is
  not part of the sources at hand. The spec has it enqueue one asynchronous
  "generate title" job carrying the message it is given; the first argument says whether
  the enqueue fails.
\<close>

definition enqueueCreateConversationTitle :: "js_error option \<Rightarrow> title_job \<Rightarrow> sys \<Rightarrow> unit step" where
  "enqueueCreateConversationTitle fails job s =
    (case fails of
       Some err \<Rightarrow> (Inl err, s)
     | None \<Rightarrow> (Inr (), s\<lparr>queue := queue s @ [job]\<rparr>))"

subsection \<open>The action\<close>

text \<open>\<open>apiBase\<close> and the MCP endpoint; \<open>undefined.replace\<close> and a bad URL throw.\<close>

definition apiBase :: "env \<Rightarrow> string option" where
  "apiBase e =
    (if truthy (API_BASE_URL e) then API_BASE_URL e
     else if API_BASE_URL e = Some [] then APP_ORIGIN e
     else (case APP_ORIGIN e of None \<Rightarrow> Some ''http://localhost:3000'' | Some origin \<Rightarrow> Some origin))"

definition mcp_url :: "env \<Rightarrow> world \<Rightarrow> js_error + string" where
  "mcp_url e w =
    (case apiBase e of
       None \<Rightarrow> Inl (TypeError ''Cannot read properties of undefined (reading 'replace')'')
     | Some base \<Rightarrow>
         (let apiEndpoint = strip_trailing_slash base @ ''/api/v1/mcp?source=core''
          in if w_url_valid w apiEndpoint then Inr apiEndpoint
             else Inl (TypeError ''Invalid URL'')))"

text \<open>
  From the start of the handler to the MCP client: the token is deleted and minted again,
  the first part's text is read, the client is created.
\<close>

definition connect :: "env \<Rightarrow> world \<Rightarrow> chat_request \<Rightarrow> sys \<Rightarrow> string step" where
  "connect e w body s0 =
    and_then (await_unit (w_deletePAT w) s0) (\<lambda>_ s.
    and_then (await_value (w_getPAT w) s) (\<lambda>token s.
      if \<not> truthy token then
        (Inl (Error ''Authentication token unavailable''),
         add_log (LoggerError ''Failed to get PAT token for MCP authentication'' None) s)
      else
        and_then
          (case req_parts body of
             [] \<Rightarrow> (Inl (TypeError ''Cannot read properties of undefined (reading 'text')''), s)
           | p # _ \<Rightarrow> (Inr (p_text p), s)) (\<lambda>message s.
        and_then (await_value (mcp_url e w) s) (\<lambda>url s.
          (case w_createMCPClient w of
             Some err \<Rightarrow>
               (Inl (Error ''Internal error: unable to connect to internal MCP service''),
                add_log (LoggerError ''Failed to create MCP client'' (Some err)) s)
           | None \<Rightarrow> (Inr message, s))))))"

text \<open>The \<open>try\<close>/\<open>catch\<close> around \<open>mcpClient.tools()\<close>.\<close>

definition fetch_tools :: "world \<Rightarrow> sys \<Rightarrow> string list \<times> sys" where
  "fetch_tools w s =
    (case w_tools w of
       Inr tools \<Rightarrow> (tools, s)
     | Inl err \<Rightarrow>
         ([], add_log (LoggerWarn ''Failed to fetch MCP tools; continuing with empty tools set''
                         (Some err)) s))"

definition to_ui_message :: "history_row \<Rightarrow> ui_message" where
  "to_ui_message history =
    \<lparr>m_id = h_id history,
     m_role = (if h_userType history = Agent then ''assistant'' else ''user''),
     m_parts = [\<lparr>p_type = ''text'', p_text = h_message history\<rparr>]\<rparr>"

text \<open>From the history read to the call of \<open>streamText\<close>.\<close>

definition run_turn ::
  "env \<Rightarrow> world \<Rightarrow> chat_request \<Rightarrow> string \<Rightarrow> string list \<Rightarrow> sys \<Rightarrow> stream_call step" where
  "run_turn e w body message tools s0 =
    and_then (await_value (w_getConversation w) s0) (\<lambda>conversation s.
      (let conversationHistory = (case conversation of None \<Rightarrow> [] | Some h \<Rightarrow> h) in
       and_then (createConversationHistory (w_saveUser w) message (req_id body) User s)
         (\<lambda>savedHistory s.
       and_then
         (if length conversationHistory = 0 then
            enqueueCreateConversationTitle (w_enqueue w)
              \<lparr>j_conversationId = req_id body, j_message = stripHtml message\<rparr> s
          else (Inr (), s)) (\<lambda>_ s.
         (let conversationHistory' =
                conversationHistory @
                  [\<lparr>h_id = (case req_message_id body of Some i \<Rightarrow> i | None \<Rightarrow> w_generateId w),
                    h_message = message, h_userType = User\<rparr>];
              messages = map to_ui_message conversationHistory'
          in
          and_then (await_unit (w_validate w) s) (\<lambda>_ s.
          and_then (await_value (getModel e None) s) (\<lambda>m s.
            (Inr \<lparr>sc_model = m, sc_messages = messages, sc_tools = tools, sc_stepLimit = 10\<rparr>,
             s))))))))"

definition action :: "env \<Rightarrow> world \<Rightarrow> chat_request \<Rightarrow> sys \<Rightarrow> stream_call step" where
  "action e w body s0 =
    and_then (connect e w body s0) (\<lambda>message s.
      (case fetch_tools w s of (tools, s') \<Rightarrow> run_turn e w body message tools s'))"

subsection \<open>The terminal callback \<open>onFinish\<close>\<close>

text \<open>\<open>messages.pop()\<close>: the last message, \<open>undefined\<close> on an empty array.\<close>

definition pop_last :: "'a list \<Rightarrow> 'a option" where
  "pop_last xs = (if xs = [] then None else Some (last xs))"

text \<open>The \<open>forEach\<close> that appends the text of each part of type \<open>text\<close> to \<open>message\<close>.\<close>

definition collect_text :: "ui_part list \<Rightarrow> string" where
  "collect_text parts =
    foldl (\<lambda>message part. if p_type part = ''text'' then message @ p_text part else message)
      [] parts"

definition final_text :: "ui_message list \<Rightarrow> string" where
  "final_text messages =
    (case pop_last messages of None \<Rightarrow> [] | Some lastMessage \<Rightarrow> collect_text (m_parts lastMessage))"

definition onFinish :: "world \<Rightarrow> chat_request \<Rightarrow> ui_message list \<Rightarrow> sys \<Rightarrow> turn step" where
  "onFinish w body messages s =
    createConversationHistory (w_saveAgent w) (final_text messages) (req_id body) Agent s"

section \<open>The client watchdog (\<open>SingleConversation\<close>)\<close>

text \<open>
  The status strings the component compares with: \<open>submitted\<close>, \<open>streaming\<close>, \<open>ready\<close>,
  \<open>error\<close>, \<open>idle\<close>, \<open>success\<close>.
\<close>

datatype chat_status = Submitted | Streaming | Ready | Errored | Idle | Success

text \<open>
  The state the effects and the callbacks work on:
  \<^item> \<open>status\<close> of \<open>useChat\<close> and the \<open>retryCount\<close> state;
  \<^item> \<open>firstRetryCount\<close>, the \<open>retryCount\<close> of the first render: \<open>useChat\<close> keeps the
    \<open>onError\<close> it was given on the first render, so that closure goes on reading this
    value;
  \<^item> \<open>statusTimeout\<close>, the timer held in \<open>statusTimeoutRef\<close>, as the milliseconds left
    until it fires (\<open>None\<close>: no timer pending);
  \<^item> \<open>revalidateTimers\<close>, the milliseconds left on each pending
    \<open>setTimeout(() => revalidator.revalidate(), 1000)\<close>;
  \<^item> \<open>revalidating\<close>, whether the router is revalidating: \<open>useRevalidator\<close> returns a new
    object each time this changes, and \<open>revalidator\<close> is in the dependency list of the
    watchdog effect.
  The reference \<open>stop\<close> in the dependency list is stable.
\<close>

record watchdog =
  status :: chat_status
  retryCount :: nat
  firstRetryCount :: nat
  statusTimeout :: "nat option"
  revalidateTimers :: "nat list"
  revalidating :: bool

text \<open>
  What the component does to the outside: \<open>stop()\<close>, a \<open>setTimeout\<close> of the refetch, the
  refetch \<open>revalidator.revalidate()\<close> itself, \<open>window.location.reload()\<close>, a
  \<open>setTimeout\<close> of the reload.
\<close>

datatype wd_action = StopStream | RevalidateAfter nat | Revalidate | Reload | ReloadAfter nat

definition monitored :: "chat_status \<Rightarrow> bool" where
  "monitored st = (st = Submitted \<or> st = Streaming)"

text \<open>The watchdog effect: the pending timer is cleared, and one of 30000 ms is set
  when the status is \<open>submitted\<close> or \<open>streaming\<close>.\<close>

definition watchdog_effect :: "watchdog \<Rightarrow> watchdog" where
  "watchdog_effect w =
    w\<lparr>statusTimeout := (if monitored (status w) then Some 30000 else None)\<rparr>"

text \<open>The reset effect.\<close>

definition reset_effect :: "watchdog \<Rightarrow> watchdog" where
  "reset_effect w =
    (if status w = Idle \<or> status w = Success then
       (if retryCount w > 0 then w\<lparr>retryCount := 0\<rparr> else w)
     else w)"

text \<open>
  A render after \<open>status\<close> or \<open>retryCount\<close> changed runs both effects; when the reset
  effect changes \<open>retryCount\<close>, the next render runs them again.
\<close>

definition render :: "watchdog \<Rightarrow> watchdog" where
  "render w =
    (let w1 = reset_effect (watchdog_effect w)
     in if retryCount w1 \<noteq> retryCount w then reset_effect (watchdog_effect w1) else w1)"

text \<open>
  The router's revalidation state changes (a revalidation starts or ends): the
  \<open>revalidator\<close> object is a new one, and only the watchdog effect depends on it.
\<close>

definition revalidator_change :: "watchdog \<Rightarrow> watchdog" where
  "revalidator_change w = watchdog_effect (w\<lparr>revalidating := \<not> revalidating w\<rparr>)"

text \<open>\<open>revalidator.revalidate()\<close>: starts a revalidation unless one is under way.\<close>

definition revalidate :: "watchdog \<Rightarrow> watchdog" where
  "revalidate w = (if revalidating w then w else revalidator_change w)"

text \<open>The callback of the 30 second timer.\<close>

definition timeout_callback :: "watchdog \<Rightarrow> watchdog \<times> wd_action list" where
  "timeout_callback w =
    (if retryCount w < 2 then
       (render (w\<lparr>retryCount := retryCount w + 1, statusTimeout := None,
                  revalidateTimers := revalidateTimers w @ [1000]\<rparr>),
        [StopStream, RevalidateAfter 1000])
     else (w\<lparr>statusTimeout := None\<rparr>, [Reload]))"

text \<open>
  The \<open>onError\<close> callback given to \<open>useChat\<close>. Its test \<open>retryCount < 2\<close> reads the
  closure's value; \<open>setRetryCount(prev => prev + 1)\<close> works on the current one.
\<close>

definition on_error :: "watchdog \<Rightarrow> watchdog \<times> wd_action list" where
  "on_error w =
    (if firstRetryCount w < 2 then
       (render (w\<lparr>retryCount := retryCount w + 1,
                  revalidateTimers := revalidateTimers w @ [1000]\<rparr>),
        [RevalidateAfter 1000])
     else (w, [ReloadAfter 2000]))"

text \<open>The pending timers, the time until the next one fires, and the passing of time
  short of that.\<close>

definition pending :: "watchdog \<Rightarrow> nat list" where
  "pending w = (case statusTimeout w of None \<Rightarrow> [] | Some r \<Rightarrow> [r]) @ revalidateTimers w"

definition next_due :: "watchdog \<Rightarrow> nat option" where
  "next_due w = (case pending w of [] \<Rightarrow> None | r # rs \<Rightarrow> Some (fold min rs r))"

definition age :: "nat \<Rightarrow> watchdog \<Rightarrow> watchdog" where
  "age d w =
    w\<lparr>statusTimeout := map_option (\<lambda>r. r - d) (statusTimeout w),
      revalidateTimers := map (\<lambda>r. r - d) (revalidateTimers w)\<rparr>"

text \<open>
  The timers with no time left fire: the status timer runs its callback, and each refetch
  timer calls \<open>revalidator.revalidate()\<close> (of several calls the first starts the
  revalidation). Of timers due at the same instant the status timer runs first.
\<close>

definition fire_due :: "watchdog \<Rightarrow> watchdog \<times> wd_action list" where
  "fire_due w =
    (case (if statusTimeout w = Some 0 then timeout_callback w else (w, [])) of
       (w1, acts) \<Rightarrow>
         (let n = length (filter (\<lambda>r. r = 0) (revalidateTimers w1)) in
          if n = 0 then (w1, acts)
          else (revalidate (w1\<lparr>revalidateTimers := filter (\<lambda>r. r \<noteq> 0) (revalidateTimers w1)\<rparr>),
                acts @ replicate n Revalidate)))"

text \<open>
  \<open>d\<close> milliseconds pass with nothing arriving from outside: the timers that are due
  fire, time passes until the next one is due, and so on. (After \<open>fire_due\<close> no timer
  has 0 ms left, the timers it sets have 30000 and 1000; the test \<open>r = 0\<close> is there for
  the termination proof.)
\<close>

function elapse :: "nat \<Rightarrow> watchdog \<Rightarrow> watchdog \<times> wd_action list" where
  "elapse d w =
    (case fire_due w of
       (w0, acts) \<Rightarrow>
         (case next_due w0 of
            None \<Rightarrow> (w0, acts)
          | Some r \<Rightarrow>
              if d < r \<or> r = 0 then (age d w0, acts)
              else (case elapse (d - r) (age r w0) of (w', acts') \<Rightarrow> (w', acts @ acts'))))"
  by pat_completeness auto
termination
  by (relation "measure fst") auto

text \<open>
  What arrives from outside: a new status from \<open>useChat\<close>, time, an error reported to
  \<open>onError\<close>, a change of the router's revalidation state.
\<close>

datatype wd_event = StatusChange chat_status | Elapse nat | ChatError | RevalidatorChange

definition wd_step :: "wd_event \<Rightarrow> watchdog \<Rightarrow> watchdog \<times> wd_action list" where
  "wd_step ev w =
    (case ev of
       StatusChange st \<Rightarrow> (if st = status w then (w, []) else (render (w\<lparr>status := st\<rparr>), []))
     | Elapse d \<Rightarrow> elapse d w
     | ChatError \<Rightarrow> on_error w
     | RevalidatorChange \<Rightarrow> (revalidator_change w, []))"

fun wd_run :: "watchdog \<Rightarrow> wd_event list \<Rightarrow> watchdog \<times> wd_action list" where
  "wd_run w [] = (w, [])"
| "wd_run w (ev # evs) =
    (case wd_step ev w of
       (w', acts) \<Rightarrow> (case wd_run w' evs of (w'', acts') \<Rightarrow> (w'', acts @ acts')))"

text \<open>The component when it mounts: \<open>useChat\<close> is ready, nothing has been retried.\<close>

definition mounted :: watchdog where
  "mounted = \<lparr>status = Ready, retryCount = 0, firstRetryCount = 0, statusTimeout = None,
              revalidateTimers = [], revalidating = False\<rparr>"

section \<open>Reference descriptions and sample inputs\<close>

text \<open>
  What the spec expects of a failed attempt \<open>n\<close> that is followed by another one: the
  request, the log line, and a wait of \<open>2^n\<close> seconds.
\<close>

definition failed_round ::
  "(int \<Rightarrow> fetch_outcome) \<Rightarrow> http_request \<Rightarrow> string \<Rightarrow> int \<Rightarrow> event list" where
  "failed_round fetch req base n =
    (case attempt_result (fetch n) of
       Inl err \<Rightarrow> [Fetch n req, ConsoleError (RequestFailed base n err), Sleep (2 ^ nat n * 1000)]
     | Inr emb \<Rightarrow> [])"

text \<open>A configuration with nothing set.\<close>

definition env0 :: env where
  "env0 = \<lparr>MODEL = None, MODEL_TEMPERATURE = None, ANTHROPIC_API_KEY = None,
           GOOGLE_GENERATIVE_AI_API_KEY = None, OPENAI_API_KEY = None, OPENAI_BASE_URL = None,
           OLLAMA_URL = None, OPENAI_EMBEDDINGS_BASE_URL = None, EMBEDDING_MODEL = None,
           API_BASE_URL = None, APP_ORIGIN = None\<rparr>"

text \<open>An endpoint that answers 503, then JSON without an embedding, then an embedding.\<close>

definition fetch_fail_twice :: "int \<Rightarrow> fetch_outcome" where
  "fetch_fail_twice n =
    (if n = 1 then NotOk ''503'' ''busy''
     else if n = 2 then OkJson None
     else OkJson (Some [1, 2]))"

text \<open>
  The strategies of \<open>getEmbedding\<close>, the strategy an outside call belongs to, and the
  strategies a run has called, in the order of their first call.
\<close>

datatype strategy = CustomEndpoint | ManagedSdk | LocalInference

fun strategy_of :: "event \<Rightarrow> strategy list" where
  "strategy_of (Fetch n req) = [CustomEndpoint]"
| "strategy_of (SdkEmbed name) = [ManagedSdk]"
| "strategy_of (OllamaEmbed url name) = [LocalInference]"
| "strategy_of (ConsoleError l) = []"
| "strategy_of (Sleep ms) = []"

definition strategies :: "event list \<Rightarrow> strategy list" where
  "strategies evs = remdups_adj (concat (map strategy_of evs))"

text \<open>The options \<open>getEmbedding\<close> passes to \<open>requestEmbeddingWithRetries\<close>.\<close>

definition custom_options :: "env \<Rightarrow> string \<Rightarrow> EmbeddingRequestOptions" where
  "custom_options e txt =
     \<lparr>opt_baseUrl = or_else (OPENAI_EMBEDDINGS_BASE_URL e) [],
      opt_text = txt,
      opt_apiKey = OPENAI_API_KEY e,
      opt_model = EMBEDDING_MODEL e,
      opt_sendNullModelWhenMissing = Some True,
      opt_maxRetries = None\<rparr>"

text \<open>
  A strategy succeeds when it is configured and its call returns a vector: the custom
  endpoint needs \<open>OPENAI_EMBEDDINGS_BASE_URL\<close>, the SDK call the embedding model
  \<open>text-embedding-3-small\<close>, the local one \<open>OLLAMA_URL\<close>.
\<close>

definition custom_succeeds :: "env \<Rightarrow> embed_world \<Rightarrow> string \<Rightarrow> bool" where
  "custom_succeeds e w txt =
    (truthy (OPENAI_EMBEDDINGS_BASE_URL e) \<and>
     \<not> isl (fst (requestEmbeddingWithRetries (ew_fetch w) (custom_options e txt))))"

definition sdk_succeeds :: "env \<Rightarrow> embed_world \<Rightarrow> bool" where
  "sdk_succeeds e w =
    (EMBEDDING_MODEL e = Some ''text-embedding-3-small'' \<and> \<not> isl (ew_sdk_embed w))"

definition ollama_succeeds :: "env \<Rightarrow> embed_world \<Rightarrow> bool" where
  "ollama_succeeds e w = (truthy (OLLAMA_URL e) \<and> \<not> isl (ew_ollama_embed w))"

text \<open>All three strategies configured; the endpoint and the SDK fail, Ollama answers.\<close>

definition env_embed :: env where
  "env_embed = env0\<lparr>OPENAI_EMBEDDINGS_BASE_URL := Some ''http://emb/v1'',
                     EMBEDDING_MODEL := Some ''text-embedding-3-small'',
                     OLLAMA_URL := Some ''http://localhost:11434''\<rparr>"

definition world_embed :: embed_world where
  "world_embed = \<lparr>ew_fetch = (\<lambda>n. NotOk ''500'' ''down''),
                  ew_sdk_embed = Inl (Error ''sdk unavailable''),
                  ew_ollama_embed = Inr [1 / 2]\<rparr>"

definition opts_default :: EmbeddingRequestOptions where
  "opts_default = \<lparr>opt_baseUrl = ''http://emb/v1/'', opt_text = ''hi'', opt_apiKey = Some ''k'',
                   opt_model = None, opt_sendNullModelWhenMissing = Some True,
                   opt_maxRetries = None\<rparr>"

text \<open>The agent turns the store holds for a conversation.\<close>

definition agent_turns :: "string \<Rightarrow> sys \<Rightarrow> nat" where
  "agent_turns conversationId s =
    length (filter (\<lambda>t. t_role t = Agent \<and> t_conversationId t = conversationId) (store s))"

text \<open>The line the route logs when \<open>mcpClient.tools()\<close> throws.\<close>

definition tools_warning :: "js_error \<Rightarrow> log_line" where
  "tools_warning err =
    LoggerWarn ''Failed to fetch MCP tools; continuing with empty tools set'' (Some err)"

text \<open>
  A first request on a new conversation, with every collaborator answering, and the
  messages the SDK hands to \<open>onFinish\<close> when the stream has ended.
\<close>

definition sys0 :: sys where
  "sys0 = \<lparr>store = [], queue = [], logs = []\<rparr>"

definition env_chat :: env where
  "env_chat = env0\<lparr>OPENAI_API_KEY := Some ''sk''\<rparr>"

definition world_ok :: world where
  "world_ok =
    \<lparr>w_deletePAT = None, w_getPAT = Inr (Some ''pat-token''), w_url_valid = (\<lambda>u. True),
     w_createMCPClient = None, w_tools = Inr [''search''], w_getConversation = Inr (Some []),
     w_saveUser = None, w_enqueue = None, w_generateId = ''gen-1'', w_validate = None,
     w_saveAgent = None\<rparr>"

definition body1 :: chat_request where
  "body1 = \<lparr>req_message_id = Some ''m1'',
            req_parts = [\<lparr>p_type = ''text'', p_text = ''<p>Hello &amp; welcome</p>''\<rparr>],
            req_role = ''user'', req_id = ''c1''\<rparr>"

definition final_messages :: "ui_message list" where
  "final_messages =
    [\<lparr>m_id = ''m1'', m_role = ''user'',
      m_parts = [\<lparr>p_type = ''text'', p_text = ''<p>Hello &amp; welcome</p>''\<rparr>]\<rparr>,
     \<lparr>m_id = ''a1'', m_role = ''assistant'',
      m_parts = [\<lparr>p_type = ''text'', p_text = ''Hi ''\<rparr>,
                 \<lparr>p_type = ''tool-search'', p_text = ''ignored''\<rparr>,
                 \<lparr>p_type = ''text'', p_text = ''there''\<rparr>]\<rparr>]"

text \<open>The recovery attempts of the watchdog among the actions: one \<open>stop()\<close> each.\<close>

definition stops :: "wd_action list \<Rightarrow> nat" where
  "stops acts = length (filter (\<lambda>a. a = StopStream) acts)"

text \<open>The status changes on which the reset effect sets \<open>retryCount\<close> back to 0.\<close>

definition resets :: "wd_event \<Rightarrow> bool" where
  "resets ev = (ev = StatusChange Idle \<or> ev = StatusChange Success)"

text \<open>
  From \<open>w\<close> to \<open>w'\<close> with the actions \<open>acts\<close>, the status stays, the counter does not
  fall, and each \<open>stop()\<close> is paid for by an increment of a counter that was below 2.
\<close>

definition keeps_policy :: "watchdog \<Rightarrow> wd_action list \<Rightarrow> watchdog \<Rightarrow> bool" where
  "keeps_policy w acts w' =
    (status w' = status w \<and> retryCount w \<le> retryCount w' \<and>
     stops acts + min (retryCount w) 2 \<le> min (retryCount w') 2)"

declare retry_loop.simps [simp del]
declare elapse.simps [simp del]

section \<open>Verified properties\<close>

subsection \<open>Model selection\<close>

lemma downgrades_distinct_keys: "distinct (map fst downgrades)"
  by (simp add: downgrades_def)

lemma downgrades_values_nonempty: "(k, v) \<in> set downgrades \<Longrightarrow> v \<noteq> []"
  by (auto simp: downgrades_def)

text \<open>
  What holds of \<open>getModelForTask\<close>: with tier \<open>low\<close>, a base model that is a key of the
  table is replaced by the name the table maps it to, and a base model that is neither a
  key nor the name of a member of \<open>Object.prototype\<close> is returned unchanged; with tier
  \<open>high\<close> the configured base model is returned as it is.
\<close>

lemma getModelForTask_own_names:
  "((k, cheap) \<in> set downgrades \<and> baseModel e = k \<longrightarrow> getModelForTask e Low = Str cheap) \<and>
   (baseModel e \<notin> fst ` set downgrades \<and> baseModel e \<notin> set object_prototype_members \<longrightarrow>
      getModelForTask e Low = Str (baseModel e)) \<and>
   getModelForTask e High = Str (baseModel e)"
proof (intro conjI impI)
  assume h: "(k, cheap) \<in> set downgrades \<and> baseModel e = k"
  then have "map_of downgrades (baseModel e) = Some cheap"
    using downgrades_distinct_keys by simp
  moreover have "cheap \<noteq> []"
    using h downgrades_values_nonempty by blast
  ultimately show "getModelForTask e Low = Str cheap"
    by (simp add: getModelForTask_def downgrades_lookup_def)
next
  assume h: "baseModel e \<notin> fst ` set downgrades \<and> baseModel e \<notin> set object_prototype_members"
  then have "map_of downgrades (baseModel e) = None"
    by (simp add: map_of_eq_None_iff)
  then show "getModelForTask e Low = Str (baseModel e)"
    using h by (simp add: getModelForTask_def downgrades_lookup_def)
next
  show "getModelForTask e High = Str (baseModel e)"
    by (simp add: getModelForTask_def)
qed

text \<open>
  C4, at the base model \<open>toString\<close> with tier \<open>low\<close>: the name is not a key of the
  downgrade table, and what is returned is not the name but the function that the table
  object inherits under that name.
\<close>

theorem getModelForTask_inherited_member:
  "''toString'' \<notin> fst ` set downgrades \<and>
   baseModel (env0\<lparr>MODEL := Some ''toString''\<rparr>) = ''toString'' \<and>
   getModelForTask (env0\<lparr>MODEL := Some ''toString''\<rparr>) Low = PrototypeMember ''toString'' \<and>
   getModelForTask (env0\<lparr>MODEL := Some ''toString''\<rparr>) Low \<noteq> Str ''toString''"
  by (simp add: getModelForTask_def downgrades_lookup_def downgrades_def baseModel_def
        or_else_def env0_def object_prototype_members_def)

subsection \<open>Provider routing\<close>

text \<open>
  C2, as the code has it. The value of \<open>OLLAMA_URL\<close> has no effect on what \<open>getModel\<close>
  returns, and \<open>getModel\<close> never returns a handle of the local-inference provider.
\<close>

theorem getModel_ignores_OLLAMA_URL:
  "getModel (e\<lparr>OLLAMA_URL := url\<rparr>) m = getModel e m \<and>
   getModel e m \<noteq> Inr (Some (Ollama u n))"
  by (simp add: getModel_def getModel_run_def truthy_def global_temperature_def Let_def)

text \<open>
  C2 as stated fails: with a local endpoint configured and an OpenAI key present, the
  model \<open>llama3\<close> is bound to the OpenAI provider.
\<close>

theorem getModel_OLLAMA_URL_counterexample:
  "truthy (OLLAMA_URL (env0\<lparr>OLLAMA_URL := Some ''http://localhost:11434'',
                            OPENAI_API_KEY := Some ''sk''\<rparr>)) \<and>
   getModel (env0\<lparr>OLLAMA_URL := Some ''http://localhost:11434'', OPENAI_API_KEY := Some ''sk''\<rparr>)
     (Some ''llama3'') = Inr (Some (OpenAI ''llama3''))"
  by (simp add: getModel_def getModel_run_def truthy_def or_else_def env0_def
        default_model_def Let_def)

text \<open>
  For a model name that contains \<open>claude\<close>, \<open>getModel\<close> throws the missing-key error
  exactly when \<open>ANTHROPIC_API_KEY\<close> is falsy; with a key, the local \<open>modelTemperature\<close>
  is set to 0.5 and the Anthropic handle is returned.
\<close>

lemma getModel_claude:
  assumes "str_includes (or_else m (or_else (MODEL e) default_model)) ''claude''"
  shows "(getModel e m = Inl no_anthropic_key \<longleftrightarrow> \<not> truthy (ANTHROPIC_API_KEY e)) \<and>
         (truthy (ANTHROPIC_API_KEY e) \<longrightarrow>
            getModel_run e m =
              Inr \<lparr>modelInstance = Some (Anthropic (or_else m (or_else (MODEL e) default_model))),
                   modelTemperature = 1 / 2,
                   returned = Some (Anthropic (or_else m (or_else (MODEL e) default_model)))\<rparr>)"
  using assms
  by (auto simp add: getModel_def getModel_run_def truthy_def Let_def)

text \<open>
  C3, at an Anthropic model with a key configured and a global temperature of 0.9: the
  lowered temperature 0.5 is the last value of the local variable \<open>modelTemperature\<close>, and
  the value \<open>getModel\<close> returns is the handle alone, the same handle for any setting of
  \<open>MODEL_TEMPERATURE\<close>.
\<close>

theorem getModel_claude_temperature_not_returned:
  "getModel_run (env0\<lparr>ANTHROPIC_API_KEY := Some ''sk-ant'', MODEL_TEMPERATURE := Some (9 / 10)\<rparr>)
     (Some ''claude-sonnet-4-5'') =
     Inr \<lparr>modelInstance = Some (Anthropic ''claude-sonnet-4-5''), modelTemperature = 1 / 2,
          returned = Some (Anthropic ''claude-sonnet-4-5'')\<rparr> \<and>
   getModel (env0\<lparr>ANTHROPIC_API_KEY := Some ''sk-ant'', MODEL_TEMPERATURE := Some (9 / 10)\<rparr>)
     (Some ''claude-sonnet-4-5'') = Inr (Some (Anthropic ''claude-sonnet-4-5'')) \<and>
   getModel (env0\<lparr>ANTHROPIC_API_KEY := Some ''sk-ant'', MODEL_TEMPERATURE := None\<rparr>)
     (Some ''claude-sonnet-4-5'') = Inr (Some (Anthropic ''claude-sonnet-4-5''))"
  by (simp add: getModel_def getModel_run_def truthy_def or_else_def env0_def
        default_model_def Let_def)

subsection \<open>Embedding retries\<close>

lemma retry_loop_success:
  "a \<le> m \<Longrightarrow> attempt_result (fetch a) = Inr emb \<Longrightarrow>
   retry_loop fetch req base m a = (Inr emb, [Fetch a req])"
  by (subst retry_loop.simps) simp

lemma retry_loop_last_failure:
  "attempt_result (fetch m) = Inl err \<Longrightarrow>
   retry_loop fetch req base m m =
     (Inl err, [Fetch m req, ConsoleError (RequestFailed base m err)])"
  by (subst retry_loop.simps) simp

lemma retry_loop_failure_step:
  "a < m \<Longrightarrow> attempt_result (fetch a) = Inl e \<Longrightarrow>
   retry_loop fetch req base m a =
     (case retry_loop fetch req base m (a + 1) of
        (r, evs) \<Rightarrow> (r, [Fetch a req, ConsoleError (RequestFailed base a e),
                        Sleep (2 ^ nat a * 1000)] @ evs))"
  by (subst retry_loop.simps) simp

lemma retry_loop_trace:
  assumes "a \<le> k" "k \<le> m" "\<forall>n. a \<le> n \<and> n < k \<longrightarrow> isl (attempt_result (fetch n))"
  shows "(attempt_result (fetch k) = Inr emb \<longrightarrow>
            retry_loop fetch req base m a =
              (Inr emb, concat (map (failed_round fetch req base) [a..k - 1]) @ [Fetch k req])) \<and>
         (attempt_result (fetch k) = Inl err \<and> k = m \<longrightarrow>
            retry_loop fetch req base m a =
              (Inl err, concat (map (failed_round fetch req base) [a..k - 1]) @
                 [Fetch k req, ConsoleError (RequestFailed base k err)]))"
  using assms
proof (induction "nat (k - a)" arbitrary: a)
  case 0
  then have "a = k" by simp
  then show ?case
    using \<open>k \<le> m\<close> by (auto simp: retry_loop_success retry_loop_last_failure)
next
  case (Suc x)
  then have lt: "a < k" and am: "a < m" by auto
  from Suc.prems lt have "isl (attempt_result (fetch a))" by simp
  then obtain e where e: "attempt_result (fetch a) = Inl e"
    by (cases "attempt_result (fetch a)") auto
  have x: "x = nat (k - (a + 1))" using Suc.hyps(2) by simp
  have p1: "a + 1 \<le> k" using lt by simp
  have p3: "\<forall>n. a + 1 \<le> n \<and> n < k \<longrightarrow> isl (attempt_result (fetch n))"
    using Suc.prems(3) by auto
  note ih = Suc.hyps(1) [OF x p1 Suc.prems(2) p3]
  have up: "[a..k - 1] = a # [a + 1..k - 1]" using lt by (simp add: upto_rec1)
  have fr: "failed_round fetch req base a =
      [Fetch a req, ConsoleError (RequestFailed base a e), Sleep (2 ^ nat a * 1000)]"
    by (simp add: failed_round_def e)
  have unf: "retry_loop fetch req base m a =
     (case retry_loop fetch req base m (a + 1) of
        (r, evs) \<Rightarrow> (r, [Fetch a req, ConsoleError (RequestFailed base a e),
                        Sleep (2 ^ nat a * 1000)] @ evs))"
    using am e by (rule retry_loop_failure_step)
  show ?case
  proof (intro conjI impI)
    assume "attempt_result (fetch k) = Inr emb"
    with ih have "retry_loop fetch req base m (a + 1) =
        (Inr emb, concat (map (failed_round fetch req base) [a + 1..k - 1]) @ [Fetch k req])"
      by blast
    then show "retry_loop fetch req base m a =
        (Inr emb, concat (map (failed_round fetch req base) [a..k - 1]) @ [Fetch k req])"
      unfolding unf up by (simp add: fr)
  next
    assume "attempt_result (fetch k) = Inl err \<and> k = m"
    with ih have "retry_loop fetch req base m (a + 1) =
        (Inl err, concat (map (failed_round fetch req base) [a + 1..k - 1]) @
           [Fetch k req, ConsoleError (RequestFailed base k err)])"
      by blast
    then show "retry_loop fetch req base m a =
        (Inl err, concat (map (failed_round fetch req base) [a..k - 1]) @
           [Fetch k req, ConsoleError (RequestFailed base k err)])"
      unfolding unf up by (simp add: fr)
  qed
qed

text \<open>
  C6. Let \<open>maxRetries\<close> be the option given, 3 when it is not given, and let the attempts
  before attempt \<open>k \<le> maxRetries\<close> fail. Every failed attempt \<open>n < k\<close> is followed by its
  log line and a wait of \<open>2^n\<close> seconds (\<open>2^n * 1000\<close> ms) before attempt \<open>n + 1\<close>. If
  attempt \<open>k\<close> succeeds, its embedding is returned and nothing more is requested; if
  attempt \<open>k = maxRetries\<close> fails too, its error is thrown after \<open>maxRetries\<close> requests,
  with no wait after the last.
\<close>

theorem requestEmbeddingWithRetries_backoff:
  assumes "1 \<le> k"
    and "k \<le> (case opt_maxRetries opts of None \<Rightarrow> 3 | Some n \<Rightarrow> n)"
    and "\<forall>n. 1 \<le> n \<and> n < k \<longrightarrow> isl (attempt_result (fetch n))"
  shows "(attempt_result (fetch k) = Inr emb \<longrightarrow>
            requestEmbeddingWithRetries fetch opts =
              (Inr emb,
               concat (map (failed_round fetch (build_request opts) (opt_baseUrl opts)) [1..k - 1])
                 @ [Fetch k (build_request opts)])) \<and>
         (attempt_result (fetch k) = Inl err \<and>
          k = (case opt_maxRetries opts of None \<Rightarrow> 3 | Some n \<Rightarrow> n) \<longrightarrow>
            requestEmbeddingWithRetries fetch opts =
              (Inl err,
               concat (map (failed_round fetch (build_request opts) (opt_baseUrl opts)) [1..k - 1])
                 @ [Fetch k (build_request opts),
                    ConsoleError (RequestFailed (opt_baseUrl opts) k err)])) \<and>
         (\<forall>n. 1 \<le> n \<and> n < k \<longrightarrow>
            (\<exists>e. failed_round fetch (build_request opts) (opt_baseUrl opts) n =
               [Fetch n (build_request opts), ConsoleError (RequestFailed (opt_baseUrl opts) n e),
                Sleep (2 ^ nat n * 1000)]))"
proof -
  have third: "\<forall>n. 1 \<le> n \<and> n < k \<longrightarrow>
            (\<exists>e. failed_round fetch (build_request opts) (opt_baseUrl opts) n =
               [Fetch n (build_request opts), ConsoleError (RequestFailed (opt_baseUrl opts) n e),
                Sleep (2 ^ nat n * 1000)])"
  proof (intro allI impI)
    fix n assume "1 \<le> n \<and> n < k"
    then have "isl (attempt_result (fetch n))" using assms(3) by blast
    then obtain e where "attempt_result (fetch n) = Inl e"
      by (cases "attempt_result (fetch n)") auto
    then show "\<exists>e. failed_round fetch (build_request opts) (opt_baseUrl opts) n =
               [Fetch n (build_request opts), ConsoleError (RequestFailed (opt_baseUrl opts) n e),
                Sleep (2 ^ nat n * 1000)]"
      by (simp add: failed_round_def)
  qed
  show ?thesis
    using retry_loop_trace [OF assms(1) assms(2) assms(3), of emb "build_request opts"
            "opt_baseUrl opts" err] third
    unfolding requestEmbeddingWithRetries_def by blast
qed

theorem requestEmbeddingWithRetries_backoff_witness:
  "build_request opts_default =
     \<lparr>endpoint = ''http://emb/v1/embeddings'', authorization = Some ''Bearer k'',
      input = ''hi'', payload_model = NullModel\<rparr> \<and>
   requestEmbeddingWithRetries fetch_fail_twice opts_default =
     (Inr [1, 2],
      [Fetch 1 (build_request opts_default),
       ConsoleError (RequestFailed ''http://emb/v1/'' 1 (Error ''Status 503: busy'')),
       Sleep 2000,
       Fetch 2 (build_request opts_default),
       ConsoleError (RequestFailed ''http://emb/v1/'' 2 (Error ''Unexpected embedding response format'')),
       Sleep 4000,
       Fetch 3 (build_request opts_default)])"
proof -
  have h1: "(1::int) \<le> 3" by simp
  have h2: "(3::int) \<le> (case opt_maxRetries opts_default of None \<Rightarrow> 3 | Some n \<Rightarrow> n)"
    by (simp add: opts_default_def)
  have h3: "\<forall>n. 1 \<le> n \<and> n < 3 \<longrightarrow> isl (attempt_result (fetch_fail_twice n))"
    by (auto simp: fetch_fail_twice_def attempt_result_def)
  have ok: "attempt_result (fetch_fail_twice 3) = Inr [1, 2]"
    by (simp add: fetch_fail_twice_def attempt_result_def)
  have run: "requestEmbeddingWithRetries fetch_fail_twice opts_default =
      (Inr [1, 2],
       concat (map (failed_round fetch_fail_twice (build_request opts_default)
                      (opt_baseUrl opts_default)) [1..3 - 1])
         @ [Fetch 3 (build_request opts_default)])"
    using requestEmbeddingWithRetries_backoff [OF h1 h2 h3, of "[1, 2]"] ok by blast
  have req: "build_request opts_default =
     \<lparr>endpoint = ''http://emb/v1/embeddings'', authorization = Some ''Bearer k'',
      input = ''hi'', payload_model = NullModel\<rparr>"
    by (simp add: build_request_def opts_default_def strip_trailing_slash_def truthy_def or_else_def)
  have base: "opt_baseUrl opts_default = ''http://emb/v1/''" by (simp add: opts_default_def)
  have up: "[1..3 - 1] = [1, 2::int]" by (simp add: upto_rec1)
  show ?thesis
    unfolding run up base
    by (simp add: req failed_round_def fetch_fail_twice_def attempt_result_def)
qed

subsection \<open>Embedding strategies\<close>

lemma retry_loop_calls:
  "a \<le> m \<Longrightarrow>
   \<exists>j. concat (map strategy_of (snd (retry_loop fetch req base m a))) =
          replicate (Suc j) CustomEndpoint"
proof (induction fetch req base m a rule: retry_loop.induct)
  case (1 fetch req base maxRetries attempt)
  show ?case
  proof (cases "attempt_result (fetch attempt)")
    case (Inr emb)
    then have "concat (map strategy_of (snd (retry_loop fetch req base maxRetries attempt))) =
        replicate (Suc 0) CustomEndpoint"
      using "1.prems" by (subst retry_loop.simps) simp
    then show ?thesis by blast
  next
    case (Inl err)
    show ?thesis
    proof (cases "attempt = maxRetries")
      case True
      then have "concat (map strategy_of (snd (retry_loop fetch req base maxRetries attempt))) =
        replicate (Suc 0) CustomEndpoint"
        using Inl by (subst retry_loop.simps) simp
      then show ?thesis by blast
    next
      case False
      then have lt: "attempt + 1 \<le> maxRetries" using "1.prems" by simp
      from "1.IH" [OF "1.prems" Inl False lt]
      obtain j where j: "concat (map strategy_of (snd (retry_loop fetch req base maxRetries (attempt + 1)))) =
          replicate (Suc j) CustomEndpoint" by blast
      have "concat (map strategy_of (snd (retry_loop fetch req base maxRetries attempt))) =
          replicate (Suc (Suc j)) CustomEndpoint"
        using Inl False "1.prems" j
        by (subst retry_loop.simps) (simp add: split_beta)
      then show ?thesis by blast
    qed
  qed
qed

lemma remdups_adj_replicate_append:
  "ys = [] \<or> hd ys \<noteq> x \<Longrightarrow> remdups_adj (replicate (Suc j) x @ ys) = x # remdups_adj ys"
proof (induction j)
  case 0
  then show ?case by (cases ys) auto
next
  case (Suc j)
  then show ?case by simp
qed

lemma custom_strategies:
  "ys = [] \<or> hd ys \<noteq> CustomEndpoint \<Longrightarrow>
   remdups_adj (concat (map strategy_of
      (snd (requestEmbeddingWithRetries fetch opts))) @ ys) =
   CustomEndpoint # remdups_adj ys" if "opt_maxRetries opts = None"
proof -
  assume ys: "ys = [] \<or> hd ys \<noteq> CustomEndpoint"
  have d: "requestEmbeddingWithRetries fetch opts =
      retry_loop fetch (build_request opts) (opt_baseUrl opts) 3 1"
    using that by (simp add: requestEmbeddingWithRetries_def)
  have "\<exists>j. concat (map strategy_of (snd (requestEmbeddingWithRetries fetch opts))) =
      replicate (Suc j) CustomEndpoint"
    unfolding d by (rule retry_loop_calls) simp
  then obtain j where "concat (map strategy_of (snd (requestEmbeddingWithRetries fetch opts))) =
      replicate (Suc j) CustomEndpoint"
    by blast
  then show ?thesis using remdups_adj_replicate_append [OF ys] by simp
qed

lemma try_ollama_result:
  "fst (try_ollama e w) = (if ollama_succeeds e w then ew_ollama_embed w else Inl all_failed)"
  by (auto simp: try_ollama_def ollama_succeeds_def split: sum.splits)

lemma try_ollama_calls:
  "concat (map strategy_of (snd (try_ollama e w))) =
     (if truthy (OLLAMA_URL e) then [LocalInference] else [])"
  by (auto simp: try_ollama_def split: sum.splits)

lemma try_sdk_result:
  "fst (try_sdk e w) =
     (if sdk_succeeds e w then ew_sdk_embed w
      else if ollama_succeeds e w then ew_ollama_embed w else Inl all_failed)"
  by (auto simp: try_sdk_def sdk_succeeds_def try_ollama_result split_beta split: sum.splits)

lemma try_sdk_calls:
  "concat (map strategy_of (snd (try_sdk e w))) =
     (if EMBEDDING_MODEL e = Some ''text-embedding-3-small'' then [ManagedSdk] else []) @
     (if \<not> sdk_succeeds e w \<and> truthy (OLLAMA_URL e) then [LocalInference] else [])"
  by (auto simp: try_sdk_def sdk_succeeds_def try_ollama_calls split_beta split: sum.splits)

lemma getEmbedding_result:
  "fst (getEmbedding e w txt) =
     (if custom_succeeds e w txt
      then fst (requestEmbeddingWithRetries (ew_fetch w) (custom_options e txt))
      else if sdk_succeeds e w then ew_sdk_embed w
      else if ollama_succeeds e w then ew_ollama_embed w
      else Inl all_failed)"
  by (auto simp: getEmbedding_def custom_succeeds_def custom_options_def try_sdk_result
        split_beta split: sum.splits prod.splits)

lemma getEmbedding_strategies:
  "strategies (snd (getEmbedding e w txt)) =
     (if truthy (OPENAI_EMBEDDINGS_BASE_URL e) then [CustomEndpoint] else []) @
     (if \<not> custom_succeeds e w txt \<and> EMBEDDING_MODEL e = Some ''text-embedding-3-small''
      then [ManagedSdk] else []) @
     (if \<not> custom_succeeds e w txt \<and> \<not> sdk_succeeds e w \<and> truthy (OLLAMA_URL e)
      then [LocalInference] else [])"
proof (cases "truthy (OPENAI_EMBEDDINGS_BASE_URL e)")
  case False
  then show ?thesis
    by (auto simp: getEmbedding_def strategies_def custom_succeeds_def try_sdk_calls)
next
  case True
  obtain r evs where c: "requestEmbeddingWithRetries (ew_fetch w) (custom_options e txt) = (r, evs)"
    by (cases "requestEmbeddingWithRetries (ew_fetch w) (custom_options e txt)")
  have none: "opt_maxRetries (custom_options e txt) = None" by (simp add: custom_options_def)
  have cs: "\<And>ys. ys = [] \<or> hd ys \<noteq> CustomEndpoint \<Longrightarrow>
      remdups_adj (concat (map strategy_of evs) @ ys) = CustomEndpoint # remdups_adj ys"
    using custom_strategies [OF none, of _ "ew_fetch w"] c by simp
  show ?thesis
  proof (cases r)
    case (Inr emb)
    then have "getEmbedding e w txt = (Inr emb, evs)"
      using True c by (simp add: getEmbedding_def custom_options_def)
    moreover have "custom_succeeds e w txt"
      using True c Inr by (simp add: custom_succeeds_def)
    ultimately show ?thesis using True cs [of "[]"] by (simp add: strategies_def)
  next
    case (Inl err)
    then have g: "snd (getEmbedding e w txt) =
        evs @ [ConsoleError (CustomEndpointFailed err)] @ snd (try_sdk e w)"
      using True c by (simp add: getEmbedding_def custom_options_def split_beta)
    have nc: "\<not> custom_succeeds e w txt"
      using c Inl by (simp add: custom_succeeds_def)
    show ?thesis
      using True nc cs [of "concat (map strategy_of (snd (try_sdk e w)))"]
      by (auto simp: strategies_def g try_sdk_calls)
  qed
qed


text \<open>
  C5. \<open>getEmbedding\<close> returns the vector of the first strategy that succeeds, in the
  order custom endpoint, SDK (only for the model \<open>text-embedding-3-small\<close>), Ollama; the
  strategies it calls are exactly those up to and including the first success, in that
  order; and it throws the "all embedding methods failed" error if and only if no
  configured strategy succeeds.
\<close>

theorem getEmbedding_fallback:
  "fst (getEmbedding e w txt) =
     (if custom_succeeds e w txt
      then fst (requestEmbeddingWithRetries (ew_fetch w) (custom_options e txt))
      else if sdk_succeeds e w then ew_sdk_embed w
      else if ollama_succeeds e w then ew_ollama_embed w
      else Inl all_failed) \<and>
   strategies (snd (getEmbedding e w txt)) =
     (if truthy (OPENAI_EMBEDDINGS_BASE_URL e) then [CustomEndpoint] else []) @
     (if \<not> custom_succeeds e w txt \<and> EMBEDDING_MODEL e = Some ''text-embedding-3-small''
      then [ManagedSdk] else []) @
     (if \<not> custom_succeeds e w txt \<and> \<not> sdk_succeeds e w \<and> truthy (OLLAMA_URL e)
      then [LocalInference] else []) \<and>
   (fst (getEmbedding e w txt) = Inl all_failed \<longleftrightarrow>
      \<not> custom_succeeds e w txt \<and> \<not> sdk_succeeds e w \<and> \<not> ollama_succeeds e w)"
proof -
  have "fst (getEmbedding e w txt) = Inl all_failed \<longleftrightarrow>
      \<not> custom_succeeds e w txt \<and> \<not> sdk_succeeds e w \<and> \<not> ollama_succeeds e w"
    unfolding getEmbedding_result
    by (auto simp: custom_succeeds_def sdk_succeeds_def ollama_succeeds_def)
  then show ?thesis
    using getEmbedding_result getEmbedding_strategies by blast
qed

theorem getEmbedding_fallback_witness:
  "fst (getEmbedding env_embed world_embed ''hello'') = Inr [1 / 2] \<and>
   strategies (snd (getEmbedding env_embed world_embed ''hello'')) =
     [CustomEndpoint, ManagedSdk, LocalInference]"
proof -
  have c: "\<not> custom_succeeds env_embed world_embed ''hello''"
    by (simp add: custom_succeeds_def requestEmbeddingWithRetries_def custom_options_def
          retry_loop.simps world_embed_def attempt_result_def)
  have s: "\<not> sdk_succeeds env_embed world_embed"
    by (simp add: sdk_succeeds_def world_embed_def)
  have ol: "ollama_succeeds env_embed world_embed"
    by (simp add: ollama_succeeds_def world_embed_def env_embed_def env0_def truthy_def)
  have cfg: "truthy (OPENAI_EMBEDDINGS_BASE_URL env_embed) \<and>
      EMBEDDING_MODEL env_embed = Some ''text-embedding-3-small'' \<and> truthy (OLLAMA_URL env_embed)"
    by (simp add: env_embed_def env0_def truthy_def)
  show ?thesis
    using getEmbedding_fallback [of env_embed world_embed "''hello''"] c s ol cfg
    by (simp add: world_embed_def)
qed

subsection \<open>The terminal callback\<close>

lemma and_then_simps [simp]:
  "and_then (Inl err, s) f = (Inl err, s)"
  "and_then (Inr a, s) f = f a s"
  by (simp_all add: and_then_def)

lemma collect_text_foldl:
  "foldl (\<lambda>message part. if p_type part = ''text'' then message @ p_text part else message)
     acc parts =
   acc @ concat (map p_text (filter (\<lambda>p. p_type p = ''text'') parts))"
  by (induction parts arbitrary: acc) auto

lemma collect_text_eq:
  "collect_text parts = concat (map p_text (filter (\<lambda>p. p_type p = ''text'') parts))"
  by (simp add: collect_text_def collect_text_foldl)

text \<open>
  C10. When the store accepts the write, \<open>onFinish\<close> appends one agent turn whose text is
  the concatenation, in order, of the texts of the parts of type \<open>text\<close> of the last
  message it is given; parts of any other type add nothing, and with no such part (or no
  message at all) the turn appended has the empty text.
\<close>

theorem onFinish_persists_text_parts:
  assumes "w_saveAgent w = None"
  shows "store (snd (onFinish w body messages s)) =
          store s @
            [\<lparr>t_id = length (store s), t_conversationId = req_id body,
              t_text = (if messages = [] then []
                        else concat (map p_text
                               (filter (\<lambda>p. p_type p = ''text'') (m_parts (last messages))))),
              t_role = Agent\<rparr>]"
  using assms
  by (simp add: onFinish_def createConversationHistory_def final_text_def pop_last_def
        collect_text_eq Let_def)

theorem onFinish_persists_text_parts_witness:
  "store (snd (onFinish world_ok body1 final_messages sys0)) =
     [\<lparr>t_id = 0, t_conversationId = ''c1'', t_text = ''Hi there'', t_role = Agent\<rparr>] \<and>
   store (snd (onFinish world_ok body1
      [\<lparr>m_id = ''a2'', m_role = ''assistant'',
        m_parts = [\<lparr>p_type = ''tool-search'', p_text = ''ignored''\<rparr>]\<rparr>] sys0)) =
     [\<lparr>t_id = 0, t_conversationId = ''c1'', t_text = [], t_role = Agent\<rparr>]"
proof -
  have sa: "w_saveAgent world_ok = None" by (simp add: world_ok_def)
  show ?thesis
    using onFinish_persists_text_parts [OF sa, of body1 final_messages sys0]
      onFinish_persists_text_parts [OF sa, of body1
        "[\<lparr>m_id = ''a2'', m_role = ''assistant'',
           m_parts = [\<lparr>p_type = ''tool-search'', p_text = ''ignored''\<rparr>]\<rparr>]" sys0]
    by (simp add: final_messages_def body1_def sys0_def)
qed

subsection \<open>Tool listing\<close>

lemma connect_success:
  assumes "connect e w body s0 = (Inr message, s1)"
  shows "s1 = s0 \<and> req_parts body \<noteq> [] \<and> message = p_text (hd (req_parts body))"
  using assms
  by (auto simp: connect_def await_unit_def await_value_def and_then_def
      split: option.splits sum.splits if_splits list.splits)

lemma connect_tools_irrelevant:
  "connect e (w\<lparr>w_tools := t\<rparr>) body s = connect e w body s"
  by (simp add: connect_def mcp_url_def cong: if_cong option.case_cong sum.case_cong list.case_cong)

lemma run_turn_tools_irrelevant:
  "run_turn e (w\<lparr>w_tools := t\<rparr>) body message tools s = run_turn e w body message tools s"
  by (simp add: run_turn_def cong: if_cong option.case_cong sum.case_cong list.case_cong)

lemma run_turn_logs:
  "logs (snd (run_turn e w body message tools s)) = logs s"
  by (auto simp: run_turn_def await_unit_def await_value_def and_then_def Let_def
        createConversationHistory_def enqueueCreateConversationTitle_def
      split: option.splits sum.splits if_splits)

lemma run_turn_tools:
  "fst (run_turn e w body message tools s) = Inr call \<Longrightarrow> sc_tools call = tools"
  by (auto simp: run_turn_def await_unit_def await_value_def and_then_def Let_def
        createConversationHistory_def enqueueCreateConversationTitle_def
      split: option.splits sum.splits if_splits)

lemma run_turn_add_log:
  "fst (run_turn e w body message tools (add_log l s)) = fst (run_turn e w body message tools s)"
  by (auto simp: run_turn_def await_unit_def await_value_def and_then_def Let_def add_log_def
        createConversationHistory_def enqueueCreateConversationTitle_def
      split: option.splits sum.splits if_splits)

lemma run_turn_completes:
  assumes "w_getConversation w = Inr conv" "w_saveUser w = None"
    "w_enqueue w = None" "w_validate w = None" "getModel e None = Inr m"
  shows "\<exists>call. fst (run_turn e w body message tools s) = Inr call"
  using assms
  by (auto simp: run_turn_def await_unit_def await_value_def Let_def
        createConversationHistory_def enqueueCreateConversationTitle_def)


lemma action_after_connect:
  assumes "connect e w body s0 = (Inr message, s1)"
  shows "action e w body s0 =
           (case fetch_tools w s0 of (tools, s') \<Rightarrow> run_turn e w body message tools s')"
  using assms connect_success [OF assms] by (simp add: action_def)

text \<open>
  C7. Let the MCP client be created and \<open>mcpClient.tools()\<close> throw. Then the request logs
  exactly one line, the warning; its outcome is that of the same request with an empty
  tool list, so the failure is not raised; a stream that is started has the empty tool
  set; and when the history read, the two writes, the validation and the model lookup
  succeed, the stream is started.
\<close>

theorem tools_failure_tolerated:
  assumes "connect e w body s0 = (Inr message, s1)" and "w_tools w = Inl err"
  shows "logs (snd (action e w body s0)) = logs s0 @ [tools_warning err] \<and>
         fst (action e w body s0) = fst (action e (w\<lparr>w_tools := Inr []\<rparr>) body s0) \<and>
         (\<forall>call. fst (action e w body s0) = Inr call \<longrightarrow> sc_tools call = []) \<and>
         (w_getConversation w = Inr conv \<and> w_saveUser w = None \<and> w_enqueue w = None \<and>
          w_validate w = None \<and> getModel e None = Inr m \<longrightarrow>
            (\<exists>call. fst (action e w body s0) = Inr call \<and> sc_tools call = []))"
proof -
  have a: "action e w body s0 =
      run_turn e w body message [] (add_log (tools_warning err) s0)"
    using action_after_connect [OF assms(1)] assms(2)
    by (simp add: fetch_tools_def tools_warning_def)
  have c': "connect e (w\<lparr>w_tools := Inr []\<rparr>) body s0 = (Inr message, s1)"
    using assms(1) by (simp add: connect_tools_irrelevant)
  have b: "action e (w\<lparr>w_tools := Inr []\<rparr>) body s0 = run_turn e w body message [] s0"
    using action_after_connect [OF c']
    by (simp add: fetch_tools_def run_turn_tools_irrelevant)
  have l: "logs (snd (action e w body s0)) = logs s0 @ [tools_warning err]"
    by (simp add: a run_turn_logs add_log_def)
  have r: "fst (action e w body s0) = fst (action e (w\<lparr>w_tools := Inr []\<rparr>) body s0)"
    by (simp add: a b run_turn_add_log)
  have t: "\<forall>call. fst (action e w body s0) = Inr call \<longrightarrow> sc_tools call = []"
    using run_turn_tools by (simp add: a)
  have d: "w_getConversation w = Inr conv \<and> w_saveUser w = None \<and> w_enqueue w = None \<and>
          w_validate w = None \<and> getModel e None = Inr m \<longrightarrow>
            (\<exists>call. fst (action e w body s0) = Inr call \<and> sc_tools call = [])"
  proof
    assume h: "w_getConversation w = Inr conv \<and> w_saveUser w = None \<and> w_enqueue w = None \<and>
          w_validate w = None \<and> getModel e None = Inr m"
    then obtain call where "fst (action e w body s0) = Inr call"
      using run_turn_completes [of w conv e m body message "[]" "add_log (tools_warning err) s0"]
      by (auto simp: a)
    then show "\<exists>call. fst (action e w body s0) = Inr call \<and> sc_tools call = []"
      using t by blast
  qed
  show ?thesis using l r t d by blast
qed

lemma world_ok_connect: "connect env_chat (world_ok\<lparr>w_tools := t\<rparr>) body1 sys0 =
    (Inr ''<p>Hello &amp; welcome</p>'', sys0)"
  by (simp add: connect_def world_ok_def body1_def env_chat_def env0_def mcp_url_def apiBase_def
        truthy_def await_unit_def await_value_def)

theorem tools_failure_tolerated_witness:
  "logs (snd (action env_chat (world_ok\<lparr>w_tools := Inl (Error ''gateway down'')\<rparr>) body1 sys0)) =
     [tools_warning (Error ''gateway down'')] \<and>
   (\<exists>call. fst (action env_chat (world_ok\<lparr>w_tools := Inl (Error ''gateway down'')\<rparr>) body1 sys0) =
      Inr call \<and> sc_tools call = [])"
proof -
  have c: "connect env_chat (world_ok\<lparr>w_tools := Inl (Error ''gateway down'')\<rparr>) body1 sys0 =
      (Inr ''<p>Hello &amp; welcome</p>'', sys0)"
    by (rule world_ok_connect)
  have t: "w_tools (world_ok\<lparr>w_tools := Inl (Error ''gateway down'')\<rparr>) = Inl (Error ''gateway down'')"
    by simp
  have g: "getModel env_chat None = Inr (Some (OpenAI ''gpt-4.1-2025-04-14''))"
    by (simp add: getModel_def getModel_run_def env_chat_def env0_def truthy_def or_else_def
          default_model_def Let_def)
  note th = tools_failure_tolerated [OF c t, of "Some []" "Some (OpenAI ''gpt-4.1-2025-04-14'')"]
  let ?w = "world_ok\<lparr>w_tools := Inl (Error ''gateway down'')\<rparr>"
  have l: "logs (snd (action env_chat ?w body1 sys0)) =
      logs sys0 @ [tools_warning (Error ''gateway down'')]"
    using th by blast
  have h: "w_getConversation ?w = Inr (Some []) \<and> w_saveUser ?w = None \<and> w_enqueue ?w = None \<and>
      w_validate ?w = None \<and> getModel env_chat None = Inr (Some (OpenAI ''gpt-4.1-2025-04-14''))"
    using g by (simp add: world_ok_def)
  have ex: "\<exists>call. fst (action env_chat ?w body1 sys0) = Inr call \<and> sc_tools call = []"
    using th h by blast
  show ?thesis using l ex by (simp add: sys0_def)
qed

subsection \<open>Title job\<close>

lemma fetch_tools_keeps:
  "store (snd (fetch_tools w s)) = store s \<and> queue (snd (fetch_tools w s)) = queue s"
  by (simp add: fetch_tools_def add_log_def split: sum.splits)

lemma run_turn_enqueues:
  assumes "w_getConversation w = Inr conv" "w_saveUser w = None"
    "conv = None \<or> conv = Some []" "w_enqueue w = None"
  shows "queue (snd (run_turn e w body message tools s)) =
           queue s @ [\<lparr>j_conversationId = req_id body, j_message = stripHtml message\<rparr>]"
  using assms
  by (auto simp: run_turn_def await_unit_def await_value_def and_then_def Let_def
        createConversationHistory_def enqueueCreateConversationTitle_def
      split: option.splits sum.splits)

lemma run_turn_no_enqueue:
  assumes "w_getConversation w = Inr (Some h)" "h \<noteq> []"
  shows "queue (snd (run_turn e w body message tools s)) = queue s"
  using assms
  by (auto simp: run_turn_def await_unit_def await_value_def and_then_def Let_def
        createConversationHistory_def
      split: option.splits sum.splits)

lemma run_turn_enqueue_fails:
  assumes "w_getConversation w = Inr conv" "w_saveUser w = None"
    "conv = None \<or> conv = Some []" "w_enqueue w = Some err"
  shows "fst (run_turn e w body message tools s) = Inl err \<and>
         queue (snd (run_turn e w body message tools s)) = queue s"
  using assms
  by (auto simp: run_turn_def await_unit_def await_value_def and_then_def Let_def
        createConversationHistory_def enqueueCreateConversationTitle_def
      split: option.splits sum.splits)

lemma run_turn_store:
  assumes "run_turn e w body message tools s = (Inr call, s')"
  shows "store s' = store s @ [\<lparr>t_id = length (store s), t_conversationId = req_id body,
                                 t_text = message, t_role = User\<rparr>]"
  using assms
  by (auto simp: run_turn_def await_unit_def await_value_def and_then_def Let_def
        createConversationHistory_def enqueueCreateConversationTitle_def
      split: option.splits sum.splits if_splits)

text \<open>
  C8, as the code has it. Let the MCP client be created, the history be read and the user
  turn be saved. With no prior history and a working queue, exactly one title job is
  enqueued, carrying \<open>stripHtml\<close> of the first part's text; with prior history nothing
  is enqueued; and with no prior history and a failing queue, the request fails with the
  error of the enqueue.
\<close>

theorem title_job_on_first_message:
  assumes "connect e w body s0 = (Inr message, s1)"
    and "w_getConversation w = Inr conv"
    and "w_saveUser w = None"
  shows "message = p_text (hd (req_parts body)) \<and>
    ((conv = None \<or> conv = Some []) \<and> w_enqueue w = None \<longrightarrow>
       queue (snd (action e w body s0)) =
         queue s0 @ [\<lparr>j_conversationId = req_id body, j_message = stripHtml message\<rparr>]) \<and>
    ((\<exists>h. conv = Some h \<and> h \<noteq> []) \<longrightarrow> queue (snd (action e w body s0)) = queue s0) \<and>
    (\<forall>err. (conv = None \<or> conv = Some []) \<and> w_enqueue w = Some err \<longrightarrow>
       fst (action e w body s0) = Inl err \<and> queue (snd (action e w body s0)) = queue s0)"
proof -
  obtain tools s' where ft: "fetch_tools w s0 = (tools, s')"
    by (cases "fetch_tools w s0")
  have q: "queue s' = queue s0"
    using fetch_tools_keeps [of w s0] ft by simp
  have a: "action e w body s0 = run_turn e w body message tools s'"
    using action_after_connect [OF assms(1)] ft by simp
  have m: "message = p_text (hd (req_parts body))"
    using connect_success [OF assms(1)] by simp
  have first: "(conv = None \<or> conv = Some []) \<and> w_enqueue w = None \<longrightarrow>
       queue (snd (action e w body s0)) =
         queue s0 @ [\<lparr>j_conversationId = req_id body, j_message = stripHtml message\<rparr>]"
    using run_turn_enqueues [OF assms(2) assms(3), of e body message tools s'] q a by simp
  have later: "(\<exists>h. conv = Some h \<and> h \<noteq> []) \<longrightarrow> queue (snd (action e w body s0)) = queue s0"
    using run_turn_no_enqueue [of w _ e body message tools s'] assms(2) q a by auto
  have fails: "\<forall>err. (conv = None \<or> conv = Some []) \<and> w_enqueue w = Some err \<longrightarrow>
       fst (action e w body s0) = Inl err \<and> queue (snd (action e w body s0)) = queue s0"
    using run_turn_enqueue_fails [OF assms(2) assms(3), of _ e body message tools s'] q a by simp
  show ?thesis using m first later fails by blast
qed

text \<open>
  C8 as stated fails: on a first message, an enqueue that fails makes the request fail.
\<close>

theorem enqueue_failure_counterexample:
  "fst (action env_chat (world_ok\<lparr>w_enqueue := Some (Error ''queue down'')\<rparr>) body1 sys0) =
     Inl (Error ''queue down'')"
  by (simp add: action_def connect_def run_turn_def fetch_tools_def world_ok_def body1_def
        env_chat_def env0_def sys0_def mcp_url_def apiBase_def truthy_def await_unit_def
        await_value_def createConversationHistory_def enqueueCreateConversationTitle_def Let_def)

lemma connect_world_ok:
  assumes "w_deletePAT w = None" "w_getPAT w = Inr (Some ''pat-token'')"
    "w_url_valid w = (\<lambda>u. True)" "w_createMCPClient w = None"
  shows "connect env_chat w body1 sys0 = (Inr ''<p>Hello &amp; welcome</p>'', sys0)"
  using assms
  by (simp add: connect_def body1_def env_chat_def env0_def mcp_url_def apiBase_def
        truthy_def await_unit_def await_value_def)

theorem title_job_on_first_message_witness:
  "queue (snd (action env_chat world_ok body1 sys0)) =
     [\<lparr>j_conversationId = ''c1'', j_message = ''Hello & welcome''\<rparr>] \<and>
   queue (snd (action env_chat
      (world_ok\<lparr>w_getConversation :=
         Inr (Some [\<lparr>h_id = ''h1'', h_message = ''earlier'', h_userType = User\<rparr>])\<rparr>)
      body1 sys0)) = [] \<and>
   fst (action env_chat (world_ok\<lparr>w_enqueue := Some (Error ''queue down'')\<rparr>) body1 sys0) =
     Inl (Error ''queue down'')"
proof -
  let ?later = "world_ok\<lparr>w_getConversation :=
         Inr (Some [\<lparr>h_id = ''h1'', h_message = ''earlier'', h_userType = User\<rparr>])\<rparr>"
  let ?down = "world_ok\<lparr>w_enqueue := Some (Error ''queue down'')\<rparr>"
  have c1: "connect env_chat world_ok body1 sys0 = (Inr ''<p>Hello &amp; welcome</p>'', sys0)"
    by (rule connect_world_ok) (simp_all add: world_ok_def)
  have c2: "connect env_chat ?later body1 sys0 = (Inr ''<p>Hello &amp; welcome</p>'', sys0)"
    by (rule connect_world_ok) (simp_all add: world_ok_def)
  have c3: "connect env_chat ?down body1 sys0 = (Inr ''<p>Hello &amp; welcome</p>'', sys0)"
    by (rule connect_world_ok) (simp_all add: world_ok_def)
  have strip: "stripHtml ''<p>Hello &amp; welcome</p>'' = ''Hello & welcome''"
    by (simp add: stripHtml_def trim_def is_js_space_def)
  have g1: "w_getConversation world_ok = Inr (Some [])" and u1: "w_saveUser world_ok = None"
    and e1: "w_enqueue world_ok = None"
    by (simp_all add: world_ok_def)
  have g2: "w_getConversation ?later =
      Inr (Some [\<lparr>h_id = ''h1'', h_message = ''earlier'', h_userType = User\<rparr>])"
    and u2: "w_saveUser ?later = None"
    by (simp_all add: world_ok_def)
  have g3: "w_getConversation ?down = Inr (Some [])" and u3: "w_saveUser ?down = None"
    and e3: "w_enqueue ?down = Some (Error ''queue down'')"
    by (simp_all add: world_ok_def)
  have q1: "queue (snd (action env_chat world_ok body1 sys0)) =
      queue sys0 @ [\<lparr>j_conversationId = req_id body1,
                     j_message = stripHtml ''<p>Hello &amp; welcome</p>''\<rparr>]"
    using title_job_on_first_message [OF c1 g1 u1] e1 by blast
  have q2: "queue (snd (action env_chat ?later body1 sys0)) = queue sys0"
    using title_job_on_first_message [OF c2 g2 u2] by blast
  have q3: "fst (action env_chat ?down body1 sys0) = Inl (Error ''queue down'')"
    using title_job_on_first_message [OF c3 g3 u3] e3 by blast
  show ?thesis
    unfolding q1 q2 q3 strip by (simp add: sys0_def body1_def)
qed

subsection \<open>Persistence of the agent turn\<close>

lemma action_store:
  assumes "action e w body s0 = (Inr call, s1)"
  shows "req_parts body \<noteq> [] \<and>
         store s1 = store s0 @ [\<lparr>t_id = length (store s0), t_conversationId = req_id body,
                                  t_text = p_text (hd (req_parts body)), t_role = User\<rparr>]"
proof -
  obtain r s' where c: "connect e w body s0 = (r, s')" by (cases "connect e w body s0")
  from assms c obtain message where r: "r = Inr message"
    by (cases r) (auto simp: action_def)
  note cs = connect_success [OF c [unfolded r]]
  obtain tools s'' where ft: "fetch_tools w s0 = (tools, s'')" by (cases "fetch_tools w s0")
  have "run_turn e w body message tools s'' = (Inr call, s1)"
    using assms action_after_connect [OF c [unfolded r]] ft by simp
  from run_turn_store [OF this] have "store s1 = store s'' @
      [\<lparr>t_id = length (store s''), t_conversationId = req_id body, t_text = message, t_role = User\<rparr>]" .
  moreover have "store s'' = store s0" using fetch_tools_keeps [of w s0] ft by simp
  ultimately show ?thesis using cs by simp
qed

lemma onFinish_store:
  assumes "w_saveAgent w = None"
  shows "store (snd (onFinish w body messages s)) =
           store s @ [\<lparr>t_id = length (store s), t_conversationId = req_id body,
                       t_text = final_text messages, t_role = Agent\<rparr>]"
  using assms by (simp add: onFinish_def createConversationHistory_def Let_def)

text \<open>
  C1, as the code has it. Every call of \<open>onFinish\<close> that the store accepts adds one
  agent turn to the conversation; a request that starts its stream, followed by one call
  of \<open>onFinish\<close>, leaves exactly the user turn and one agent turn appended.
\<close>

theorem onFinish_one_agent_turn_per_call:
  "(w_saveAgent w = None \<longrightarrow>
      agent_turns (req_id body) (snd (onFinish w body messages s)) =
        agent_turns (req_id body) s + 1) \<and>
   (action e w body s0 = (Inr call, s1) \<and> w_saveAgent w = None \<longrightarrow>
      store (snd (onFinish w body messages s1)) =
        store s0 @
          [\<lparr>t_id = length (store s0), t_conversationId = req_id body,
            t_text = p_text (hd (req_parts body)), t_role = User\<rparr>,
           \<lparr>t_id = length (store s0) + 1, t_conversationId = req_id body,
            t_text = final_text messages, t_role = Agent\<rparr>])"
proof (intro conjI impI)
  assume "w_saveAgent w = None"
  then show "agent_turns (req_id body) (snd (onFinish w body messages s)) =
        agent_turns (req_id body) s + 1"
    by (simp add: agent_turns_def onFinish_store)
next
  assume h: "action e w body s0 = (Inr call, s1) \<and> w_saveAgent w = None"
  then show "store (snd (onFinish w body messages s1)) =
        store s0 @
          [\<lparr>t_id = length (store s0), t_conversationId = req_id body,
            t_text = p_text (hd (req_parts body)), t_role = User\<rparr>,
           \<lparr>t_id = length (store s0) + 1, t_conversationId = req_id body,
            t_text = final_text messages, t_role = Agent\<rparr>]"
    using action_store [of e w body s0 call s1] by (simp add: onFinish_store)
qed

lemma action_world_ok:
  "action env_chat world_ok body1 sys0 =
    (Inr \<lparr>sc_model = Some (OpenAI ''gpt-4.1-2025-04-14''),
          sc_messages = [\<lparr>m_id = ''m1'', m_role = ''user'',
             m_parts = [\<lparr>p_type = ''text'', p_text = ''<p>Hello &amp; welcome</p>''\<rparr>]\<rparr>],
          sc_tools = [''search''], sc_stepLimit = 10\<rparr>,
     \<lparr>store = [\<lparr>t_id = 0, t_conversationId = ''c1'', t_text = ''<p>Hello &amp; welcome</p>'',
                t_role = User\<rparr>],
      queue = [\<lparr>j_conversationId = ''c1'', j_message = ''Hello & welcome''\<rparr>],
      logs = []\<rparr>)"
  by (simp add: action_def connect_def run_turn_def fetch_tools_def world_ok_def body1_def
        env_chat_def env0_def sys0_def mcp_url_def apiBase_def truthy_def await_unit_def
        await_value_def createConversationHistory_def enqueueCreateConversationTitle_def Let_def
        getModel_def getModel_run_def or_else_def default_model_def global_temperature_def
        to_ui_message_def stripHtml_def trim_def is_js_space_def)

text \<open>
  C1 as stated fails: after a second call of \<open>onFinish\<close> for the same turn the
  conversation holds two agent turns.
\<close>

theorem duplicate_onFinish_counterexample:
  "agent_turns ''c1''
     (snd (onFinish world_ok body1 final_messages
        (snd (onFinish world_ok body1 final_messages
           (snd (action env_chat world_ok body1 sys0)))))) = 2"
  unfolding action_world_ok
  by (simp add: onFinish_def createConversationHistory_def world_ok_def
        body1_def agent_turns_def Let_def)

theorem onFinish_one_agent_turn_per_call_witness:
  "agent_turns ''c1'' (snd (onFinish world_ok body1 final_messages sys0)) = 1 \<and>
   store (snd (onFinish world_ok body1 final_messages (snd (action env_chat world_ok body1 sys0)))) =
     [\<lparr>t_id = 0, t_conversationId = ''c1'', t_text = ''<p>Hello &amp; welcome</p>'', t_role = User\<rparr>,
      \<lparr>t_id = 1, t_conversationId = ''c1'', t_text = ''Hi there'', t_role = Agent\<rparr>]"
proof -
  have sa: "w_saveAgent world_ok = None" by (simp add: world_ok_def)
  have ft: "final_text final_messages = ''Hi there''"
    by (simp add: final_text_def pop_last_def final_messages_def collect_text_def)
  let ?call = "\<lparr>sc_model = Some (OpenAI ''gpt-4.1-2025-04-14''),
          sc_messages = [\<lparr>m_id = ''m1'', m_role = ''user'',
             m_parts = [\<lparr>p_type = ''text'', p_text = ''<p>Hello &amp; welcome</p>''\<rparr>]\<rparr>],
          sc_tools = [''search''], sc_stepLimit = 10\<rparr>"
  let ?s1 = "\<lparr>store = [\<lparr>t_id = 0, t_conversationId = ''c1'',
                t_text = ''<p>Hello &amp; welcome</p>'', t_role = User\<rparr>],
      queue = [\<lparr>j_conversationId = ''c1'', j_message = ''Hello & welcome''\<rparr>],
      logs = []\<rparr>"
  have a: "action env_chat world_ok body1 sys0 = (Inr ?call, ?s1)"
    by (rule action_world_ok)
  note th = onFinish_one_agent_turn_per_call
    [of world_ok body1 final_messages sys0 env_chat sys0 ?call ?s1]
  have 1: "agent_turns (req_id body1) (snd (onFinish world_ok body1 final_messages sys0)) =
      agent_turns (req_id body1) sys0 + 1"
    using th sa by blast
  have 2: "store (snd (onFinish world_ok body1 final_messages ?s1)) =
      store sys0 @
        [\<lparr>t_id = length (store sys0), t_conversationId = req_id body1,
          t_text = p_text (hd (req_parts body1)), t_role = User\<rparr>,
         \<lparr>t_id = length (store sys0) + 1, t_conversationId = req_id body1,
          t_text = final_text final_messages, t_role = Agent\<rparr>]"
    using th a sa by blast
  show ?thesis
    unfolding action_world_ok using 1 2
    by (simp add: ft body1_def sys0_def agent_turns_def)
qed

subsection \<open>The watchdog\<close>

lemma render_not_reset:
  "status w \<noteq> Idle \<Longrightarrow> status w \<noteq> Success \<Longrightarrow>
   render w = w\<lparr>statusTimeout := (if monitored (status w) then Some 30000 else None)\<rparr>"
  by (auto simp: render_def watchdog_effect_def reset_effect_def Let_def)

lemma stops_simps [simp]:
  "stops [] = 0"
  "stops (xs @ ys) = stops xs + stops ys"
  "stops (replicate n Revalidate) = 0"
  by (simp_all add: stops_def)

lemma keeps_policy_refl [simp]: "keeps_policy w [] w"
  by (simp add: keeps_policy_def)

lemma keeps_policy_trans:
  "keeps_policy w acts w' \<Longrightarrow> keeps_policy w' acts' w'' \<Longrightarrow> keeps_policy w (acts @ acts') w''"
  by (auto simp: keeps_policy_def)

lemma timeout_callback_policy:
  assumes "status w \<noteq> Idle" "status w \<noteq> Success"
  shows "keeps_policy w (snd (timeout_callback w)) (fst (timeout_callback w))"
  using assms
  by (auto simp: timeout_callback_def render_not_reset keeps_policy_def stops_def)

lemma on_error_policy:
  assumes "status w \<noteq> Idle" "status w \<noteq> Success"
  shows "keeps_policy w (snd (on_error w)) (fst (on_error w))"
  using assms
  by (auto simp: on_error_def render_not_reset keeps_policy_def stops_def)

lemma revalidate_policy: "keeps_policy w [] (revalidate w)"
  by (simp add: revalidate_def revalidator_change_def watchdog_effect_def keeps_policy_def)

lemma age_policy: "keeps_policy w [] (age d w)"
  by (simp add: age_def keeps_policy_def)

lemma fire_due_policy:
  assumes "status w \<noteq> Idle" "status w \<noteq> Success"
  shows "keeps_policy w (snd (fire_due w)) (fst (fire_due w))"
proof -
  obtain w1 acts where c: "(if statusTimeout w = Some 0 then timeout_callback w else (w, [])) = (w1, acts)"
    by (cases "if statusTimeout w = Some 0 then timeout_callback w else (w, [])")
  have k1: "keeps_policy w acts w1"
    using c timeout_callback_policy [OF assms]
    by (auto split: if_splits)
  let ?w2 = "w1\<lparr>revalidateTimers := filter (\<lambda>r. r \<noteq> 0) (revalidateTimers w1)\<rparr>"
  have k2: "keeps_policy w1 [] (revalidate ?w2)"
    using revalidate_policy [of ?w2] by (simp add: keeps_policy_def)
  show ?thesis
    using k1 keeps_policy_trans [OF k1 k2]
    by (auto simp: fire_due_def c Let_def keeps_policy_def)
qed

lemma elapse_policy:
  "status w \<noteq> Idle \<Longrightarrow> status w \<noteq> Success \<Longrightarrow>
   keeps_policy w (snd (elapse d w)) (fst (elapse d w))"
proof (induction d w rule: elapse.induct)
  case (1 d w)
  obtain w0 acts where f: "fire_due w = (w0, acts)" by (cases "fire_due w")
  have k0: "keeps_policy w acts w0"
    using fire_due_policy [OF "1.prems"] f by simp
  then have st0: "status w0 \<noteq> Idle" "status w0 \<noteq> Success"
    using "1.prems" by (auto simp: keeps_policy_def)
  show ?case
  proof (cases "next_due w0")
    case None
    then show ?thesis using f k0 by (subst (1 2) elapse.simps) simp
  next
    case (Some r)
    show ?thesis
    proof (cases "d < r \<or> r = 0")
      case True
      have "elapse d w = (age d w0, acts)"
        using f Some True by (subst elapse.simps) auto
      then show ?thesis
        using keeps_policy_trans [OF k0 age_policy [of w0 d]] by simp
    next
      case False
      obtain w' acts' where e: "elapse (d - r) (age r w0) = (w', acts')"
        by (cases "elapse (d - r) (age r w0)")
      have sa: "status (age r w0) \<noteq> Idle" "status (age r w0) \<noteq> Success"
        using st0 by (simp_all add: age_def)
      have ih: "keeps_policy (age r w0) acts' w'"
        using "1.IH" [OF f [symmetric] Some False sa] e by simp
      have "elapse d w = (w', acts @ acts')"
        using f Some False e by (subst elapse.simps) auto
      moreover have "keeps_policy w (acts @ acts') w'"
        using keeps_policy_trans [OF k0 keeps_policy_trans [OF age_policy [of w0 r] ih]] by simp
      ultimately show ?thesis by simp
    qed
  qed
qed

lemma wd_step_policy:
  assumes "status w \<noteq> Idle" "status w \<noteq> Success" "\<not> resets ev"
  shows "retryCount w \<le> retryCount (fst (wd_step ev w)) \<and>
         stops (snd (wd_step ev w)) + min (retryCount w) 2 \<le> min (retryCount (fst (wd_step ev w))) 2 \<and>
         status (fst (wd_step ev w)) \<noteq> Idle \<and> status (fst (wd_step ev w)) \<noteq> Success"
proof (cases ev)
  case (StatusChange st)
  then have "st \<noteq> Idle" "st \<noteq> Success" using assms(3) by (auto simp: resets_def)
  then show ?thesis
    using StatusChange assms(1,2) by (auto simp: wd_step_def render_not_reset)
next
  case (Elapse d)
  then show ?thesis
    using elapse_policy [OF assms(1,2), of d] assms(1,2)
    by (auto simp: wd_step_def keeps_policy_def)
next
  case ChatError
  then show ?thesis
    using on_error_policy [OF assms(1,2)] assms(1,2)
    by (auto simp: wd_step_def keeps_policy_def)
next
  case RevalidatorChange
  then show ?thesis
    using assms(1,2) by (auto simp: wd_step_def revalidator_change_def watchdog_effect_def)
qed

lemma wd_run_policy:
  "status w \<noteq> Idle \<Longrightarrow> status w \<noteq> Success \<Longrightarrow> \<forall>ev \<in> set evs. \<not> resets ev \<Longrightarrow>
   stops (snd (wd_run w evs)) + min (retryCount w) 2 \<le> min (retryCount (fst (wd_run w evs))) 2"
proof (induction evs arbitrary: w)
  case Nil
  then show ?case by simp
next
  case (Cons ev evs)
  let ?w' = "fst (wd_step ev w)"
  have s: "retryCount w \<le> retryCount ?w' \<and>
         stops (snd (wd_step ev w)) + min (retryCount w) 2 \<le> min (retryCount ?w') 2 \<and>
         status ?w' \<noteq> Idle \<and> status ?w' \<noteq> Success"
    using wd_step_policy [of w ev] Cons.prems by simp
  have ih: "stops (snd (wd_run ?w' evs)) + min (retryCount ?w') 2 \<le>
      min (retryCount (fst (wd_run ?w' evs))) 2"
    using Cons.IH [of ?w'] s Cons.prems(3) by simp
  show ?case using s ih by (auto simp: split_beta)
qed

lemma watchdog_stops_bounded:
  assumes "status w \<noteq> Idle" "status w \<noteq> Success" "\<forall>ev \<in> set evs. \<not> resets ev"
  shows "stops (snd (wd_run w evs)) \<le> 2 - retryCount w"
  using wd_run_policy [OF assms] by (auto simp: min_def split: if_splits)


text \<open>
  What holds of the watchdog. Entering \<open>submitted\<close> or \<open>streaming\<close> sets the timer to 30
  seconds, and so does every change of the revalidator while in such a status. With that
  timer set and no refetch pending, nothing happens before 30 seconds have passed; when
  they have, the watchdog stops the stream, schedules the refetch and increments the
  counter if the counter is below 2, and reloads the page otherwise. Over any sequence of
  events that does not reset the counter, the watchdog stops the stream at most
  \<open>2 - retryCount\<close> times.
\<close>

lemma watchdog_arms:
  "monitored st \<Longrightarrow> st \<noteq> status w \<Longrightarrow>
   wd_step (StatusChange st) w = (w\<lparr>status := st, statusTimeout := Some 30000\<rparr>, [])"
  by (auto simp: wd_step_def render_not_reset monitored_def)

lemma watchdog_rearms_on_revalidator_change:
  "monitored (status w) \<Longrightarrow>
   wd_step RevalidatorChange w =
     (w\<lparr>revalidating := \<not> revalidating w, statusTimeout := Some 30000\<rparr>, [])"
  by (simp add: wd_step_def revalidator_change_def watchdog_effect_def)

lemma watchdog_timer:
  assumes "monitored (status w)" "statusTimeout w = Some 30000" "revalidateTimers w = []"
  shows "(d < 30000 \<longrightarrow> elapse d w = (w\<lparr>statusTimeout := Some (30000 - d)\<rparr>, [])) \<and>
         (retryCount w < 2 \<longrightarrow>
            elapse 30000 w =
              (w\<lparr>retryCount := retryCount w + 1, statusTimeout := Some 30000,
                  revalidateTimers := [1000]\<rparr>,
               [StopStream, RevalidateAfter 1000])) \<and>
         (2 \<le> retryCount w \<longrightarrow> elapse 30000 w = (w\<lparr>statusTimeout := None\<rparr>, [Reload]))"
proof (intro conjI impI)
  have nr: "status w \<noteq> Idle" "status w \<noteq> Success"
    using assms(1) by (auto simp: monitored_def)
  have f: "fire_due w = (w, [])"
    using assms by (simp add: fire_due_def)
  have n: "next_due w = Some 30000"
    using assms by (simp add: next_due_def pending_def)
  {
    assume "d < 30000"
    then show "elapse d w = (w\<lparr>statusTimeout := Some (30000 - d)\<rparr>, [])"
      using f n assms by (subst elapse.simps) (simp add: age_def)
  }
  have a: "age 30000 w = w\<lparr>statusTimeout := Some 0\<rparr>"
    using assms by (simp add: age_def)
  have e: "elapse 30000 w =
      (case elapse 0 (w\<lparr>statusTimeout := Some 0\<rparr>) of (w', acts') \<Rightarrow> (w', [] @ acts'))"
    using f n a by (subst elapse.simps) simp
  {
    assume lt: "retryCount w < 2"
    let ?w1 = "w\<lparr>retryCount := retryCount w + 1, statusTimeout := Some 30000,
                  revalidateTimers := [1000]\<rparr>"
    have "fire_due (w\<lparr>statusTimeout := Some 0\<rparr>) = (?w1, [StopStream, RevalidateAfter 1000])"
      using lt assms nr by (simp add: fire_due_def timeout_callback_def render_not_reset)
    moreover have "next_due ?w1 = Some 1000"
      by (simp add: next_due_def pending_def)
    ultimately have "elapse 0 (w\<lparr>statusTimeout := Some 0\<rparr>) =
        (?w1, [StopStream, RevalidateAfter 1000])"
      by (subst elapse.simps) (simp add: age_def)
    then show "elapse 30000 w = (?w1, [StopStream, RevalidateAfter 1000])"
      by (simp add: e)
  }
  {
    assume ge: "2 \<le> retryCount w"
    let ?w1 = "w\<lparr>statusTimeout := None\<rparr>"
    have "fire_due (w\<lparr>statusTimeout := Some 0\<rparr>) = (?w1, [Reload])"
      using ge assms by (simp add: fire_due_def timeout_callback_def)
    moreover have "next_due ?w1 = None"
      using assms by (simp add: next_due_def pending_def)
    ultimately have "elapse 0 (w\<lparr>statusTimeout := Some 0\<rparr>) = (?w1, [Reload])"
      by (subst elapse.simps) simp
    then show "elapse 30000 w = (?w1, [Reload])"
      by (simp add: e)
  }
qed

lemma fold_min_in: "fold min rs r \<in> set (r # rs)"
  by (induction rs arbitrary: r) (auto simp: min_def)

lemma next_due_pending: "next_due w = Some r \<Longrightarrow> r \<in> set (pending w)"
  using fold_min_in by (auto simp: next_due_def split: list.splits)

text \<open>After the due timers have fired, no timer is due.\<close>

lemma fire_due_leaves_none_due: "next_due (fst (fire_due w)) \<noteq> Some 0"
proof
  assume "next_due (fst (fire_due w)) = Some 0"
  then have z: "0 \<in> set (pending (fst (fire_due w)))"
    by (rule next_due_pending)
  obtain w1 acts where c:
    "(if statusTimeout w = Some 0 then timeout_callback w else (w, [])) = (w1, acts)"
    by (cases "if statusTimeout w = Some 0 then timeout_callback w else (w, [])")
  have s1: "statusTimeout w1 \<noteq> Some 0"
    using c
    by (auto simp: timeout_callback_def render_def watchdog_effect_def reset_effect_def Let_def
        split: if_splits)
  have "0 \<notin> set (pending (fst (fire_due w)))"
    using s1
    by (auto simp: fire_due_def c Let_def pending_def revalidate_def revalidator_change_def
          watchdog_effect_def filter_empty_conv split: option.splits)
  then show False using z by simp
qed

text \<open>
  C9, on two runs of the mounted component. The status becomes \<open>streaming\<close>, 20 seconds
  pass, a revalidation starts, 15 more seconds pass: after 35 seconds in \<open>streaming\<close>
  with no change of status the watchdog has done nothing, and its timer has 15 seconds
  left. Three errors are reported to \<open>onError\<close>: each takes the retry branch, the
  counter reaches 3, and no reload is scheduled.
\<close>

theorem watchdog_stall_without_recovery:
  "wd_run mounted [StatusChange Streaming, Elapse 20000, RevalidatorChange, Elapse 15000] =
     (\<lparr>status = Streaming, retryCount = 0, firstRetryCount = 0, statusTimeout = Some 15000,
       revalidateTimers = [], revalidating = True\<rparr>, []) \<and>
   wd_run mounted [ChatError, ChatError, ChatError] =
     (\<lparr>status = Ready, retryCount = 3, firstRetryCount = 0, statusTimeout = None,
       revalidateTimers = [1000, 1000, 1000], revalidating = False\<rparr>,
      [RevalidateAfter 1000, RevalidateAfter 1000, RevalidateAfter 1000])"
  by (simp add: mounted_def wd_step_def render_def watchdog_effect_def reset_effect_def
        monitored_def elapse.simps fire_due_def next_due_def pending_def age_def
        revalidator_change_def on_error_def Let_def)

end
